theory Spec2Isabelle
  imports Complex_Main "HOL-Library.Sublist"
begin

section \<open>Python values\<close>

text \<open>
  A Python \<open>str\<close> is a sequence of Unicode code points; the Arabic literals of the
  sources are written as their code points. Amounts of money (Python \<open>float\<close>,
  \<open>Decimal\<close>) are exact rationals: the rounding of binary floating point is not
  modelled.
\<close>

type_synonym pystr = "nat list"

definition ascii :: "string \<Rightarrow> pystr" where
  "ascii s = map of_char s"

datatype py_error = IndexError | UnboundLocalError | ValueError

section \<open>state/machine.py: the transition table\<close>

datatype State =
    S0_INIT | S1_INTENT | S2_GREETING | S3_LOCATION | S4_ORDERING
  | S5_CHECKOUT | S6_FINALIZED | S_COMPLAINT | S_FALLBACK

datatype Trigger =
    START | RETRY | EXIT
  | INTENT_ORDERING | INTENT_COMPLAINT | INTENT_INQUIRY | INTENT_OTHER
  | CONFIRM_ORDER | NOT_ORDERING | ADDRESS_VALID | ADDRESS_INVALID
  | PICKUP_CHOSEN | RESTAURANT_CLOSED | CHECKOUT | CONTINUE_ORDERING
  | ORDER_CONFIRMED | MODIFY_ORDER | CANCEL
  | RESOLVED | ESCALATE

fun TRANSITIONS :: "State \<Rightarrow> (Trigger \<times> State) list" where
  "TRANSITIONS S0_INIT = [(START, S1_INTENT)]"
| "TRANSITIONS S1_INTENT =
     [(INTENT_ORDERING, S2_GREETING), (INTENT_COMPLAINT, S_COMPLAINT),
      (INTENT_INQUIRY, S_FALLBACK), (INTENT_OTHER, S_FALLBACK)]"
| "TRANSITIONS S2_GREETING =
     [(CONFIRM_ORDER, S3_LOCATION), (NOT_ORDERING, S_FALLBACK),
      (RESTAURANT_CLOSED, S6_FINALIZED)]"
| "TRANSITIONS S3_LOCATION =
     [(ADDRESS_VALID, S4_ORDERING), (PICKUP_CHOSEN, S4_ORDERING),
      (RESTAURANT_CLOSED, S6_FINALIZED), (CANCEL, S0_INIT)]"
| "TRANSITIONS S4_ORDERING =
     [(CHECKOUT, S5_CHECKOUT), (CONTINUE_ORDERING, S4_ORDERING), (CANCEL, S0_INIT)]"
| "TRANSITIONS S5_CHECKOUT =
     [(ORDER_CONFIRMED, S6_FINALIZED), (MODIFY_ORDER, S4_ORDERING), (CANCEL, S0_INIT)]"
| "TRANSITIONS S6_FINALIZED = [(START, S1_INTENT)]"
| "TRANSITIONS S_COMPLAINT = [(RESOLVED, S2_GREETING), (ESCALATE, S6_FINALIZED)]"
| "TRANSITIONS S_FALLBACK =
     [(RETRY, S1_INTENT), (EXIT, S6_FINALIZED), (INTENT_ORDERING, S2_GREETING)]"

definition get_next_state :: "State \<Rightarrow> Trigger \<Rightarrow> State option" where
  "get_next_state current_state trigger = map_of (TRANSITIONS current_state) trigger"

definition is_valid_transition :: "State \<Rightarrow> Trigger \<Rightarrow> bool" where
  "is_valid_transition current_state trigger = (get_next_state current_state trigger \<noteq> None)"

section \<open>utils/time\_utils.py: the opening hours\<close>

record Settings =
  opening_hour :: int
  closing_hour :: int

text \<open>The defaults of config.py: the restaurant opens at 9 and closes at 3.\<close>

definition default_settings :: Settings where
  "default_settings = \<lparr>opening_hour = 9, closing_hour = 3\<rparr>"

record datetime =
  dt_hour :: int
  dt_minute :: int

text \<open>
  \<open>is_restaurant_open\<close> reads the settings and the current Saudi time; both are
  arguments here. Only the hour of the clock is looked at.
\<close>

definition is_restaurant_open :: "Settings \<Rightarrow> datetime \<Rightarrow> bool" where
  "is_restaurant_open settings now =
     (let hour = dt_hour now;
          opening = opening_hour settings;
          closing = closing_hour settings
      in if closing < opening
         then hour \<ge> opening \<or> hour < closing
         else opening \<le> hour \<and> hour < closing)"

section \<open>state/session\_state.py and agents/orchestrator.py: applying an agent's result\<close>

record CartItem =
  ci_menu_item_id :: int
  ci_item_name_ar :: pystr
  ci_quantity :: int
  ci_unit_price :: rat
  ci_total_price :: rat
  ci_special_instructions :: "pystr option"

record SessionState =
  ss_state :: State
  ss_customer_name :: "pystr option"
  ss_customer_phone :: "pystr option"
  ss_order_type :: pystr
  ss_cart :: "CartItem list"
  ss_applied_promo_code :: "pystr option"

text \<open>
  The \<open>session_updates\<close> dictionary of an \<open>AgentResult\<close>: a field is \<open>None\<close> when
  the key is absent. The keys \<open>location\<close>, \<open>conversation_summary_ar\<close> and
  \<open>metadata\<close> write fields of the session that are not modelled.
\<close>

record session_updates =
  upd_cart :: "CartItem list option"
  upd_customer_name :: "pystr option"
  upd_customer_phone :: "pystr option"
  upd_order_type :: "pystr option"
  upd_applied_promo_code :: "pystr option option"

record AgentResult =
  session_updates :: session_updates
  trigger :: "Trigger option"

text \<open>\<open>Orchestrator._apply_session_updates\<close>; a string is truthy when it is not empty.\<close>

definition apply_session_updates :: "SessionState \<Rightarrow> session_updates \<Rightarrow> SessionState" where
  "apply_session_updates session updates =
     (let s1 = (case upd_cart updates of
                  Some v \<Rightarrow> session\<lparr>ss_cart := v\<rparr> | None \<Rightarrow> session);
          s2 = (case upd_customer_name updates of
                  Some v \<Rightarrow> if v \<noteq> [] then s1\<lparr>ss_customer_name := Some v\<rparr> else s1
                | None \<Rightarrow> s1);
          s3 = (case upd_customer_phone updates of
                  Some v \<Rightarrow> if v \<noteq> [] then s2\<lparr>ss_customer_phone := Some v\<rparr> else s2
                | None \<Rightarrow> s2);
          s4 = (case upd_order_type updates of
                  Some v \<Rightarrow> if v \<noteq> [] then s3\<lparr>ss_order_type := v\<rparr> else s3
                | None \<Rightarrow> s3)
      in (case upd_applied_promo_code updates of
            Some v \<Rightarrow> s4\<lparr>ss_applied_promo_code := v\<rparr> | None \<Rightarrow> s4))"

text \<open>
  The end of \<open>Orchestrator.handle_message\<close>, once the agent of \<open>current_state\<close> has
  answered: the session updates are applied, then the trigger, when the table has a
  transition for it.
\<close>

definition handle_message_result :: "State \<Rightarrow> SessionState \<Rightarrow> AgentResult \<Rightarrow> SessionState" where
  "handle_message_result current_state session result =
     (let session1 = apply_session_updates session (session_updates result)
      in case trigger result of
           None \<Rightarrow> session1
         | Some t \<Rightarrow>
             (case get_next_state current_state t of
                None \<Rightarrow> session1
              | Some next_state \<Rightarrow> session1\<lparr>ss_state := next_state\<rparr>))"

text \<open>
  The start of \<open>Orchestrator.handle_message\<close>: a session in \<open>S0_INIT\<close> is moved to
  \<open>S1_INTENT\<close>, and in \<open>S1_INTENT\<close> the intent agent runs first and its trigger and
  session updates are applied. \<open>detect\<close> is the answer of the intent agent; the result
  is the state whose agent answers the message, and the session it sees.
\<close>

definition intent_step :: "(SessionState \<Rightarrow> AgentResult) \<Rightarrow> SessionState \<Rightarrow> State \<times> SessionState" where
  "intent_step detect session =
     (let session0 = (if ss_state session = S0_INIT then session\<lparr>ss_state := S1_INTENT\<rparr>
                      else session);
          current_state = ss_state session0
      in if current_state = S1_INTENT
         then
           (let intent_result = detect session0;
                (session1, current_state1) =
                  (case trigger intent_result of
                     None \<Rightarrow> (session0, current_state)
                   | Some t \<Rightarrow>
                       (case get_next_state current_state t of
                          None \<Rightarrow> (session0, current_state)
                        | Some next_state \<Rightarrow> (session0\<lparr>ss_state := next_state\<rparr>, next_state)))
            in (current_state1, apply_session_updates session1 (session_updates intent_result)))
         else (current_state, session0))"

text \<open>
  \<open>Orchestrator.handle_message\<close> on a loaded session: \<open>process\<close> is the answer of the
  agent of a state. The chat history, the summary and the saving of the session are not
  modelled.
\<close>

definition handle_message ::
  "(SessionState \<Rightarrow> AgentResult) \<Rightarrow> (State \<Rightarrow> SessionState \<Rightarrow> AgentResult) \<Rightarrow> SessionState
     \<Rightarrow> SessionState" where
  "handle_message detect process session =
     (let (current_state, session1) = intent_step detect session
      in handle_message_result current_state session1 (process current_state session1))"

definition no_updates :: session_updates where
  "no_updates = \<lparr>upd_cart = None, upd_customer_name = None, upd_customer_phone = None,
     upd_order_type = None, upd_applied_promo_code = None\<rparr>"

section \<open>tools/order\_tools.py: the cart of a session\<close>

record MenuItem =
  mi_name_ar :: pystr
  mi_name_en :: "pystr option"
  mi_price :: rat
  mi_available :: "bool option"

record OrderItem =
  item_id :: pystr
  name_ar :: pystr
  name_en :: pystr
  quantity :: int
  price :: rat
  line_notes :: pystr
  line_total :: rat

text \<open>The module's \<open>_orders\<close> dictionary, from session id to the session's order lines.\<close>

type_synonym orders = "pystr \<rightharpoonup> OrderItem list"

definition get_session_order :: "orders \<Rightarrow> pystr \<Rightarrow> OrderItem list" where
  "get_session_order orders session_id =
     (case orders session_id of None \<Rightarrow> [] | Some items \<Rightarrow> items)"

definition set_session_order :: "orders \<Rightarrow> pystr \<Rightarrow> OrderItem list \<Rightarrow> orders" where
  "set_session_order orders session_id items = orders(session_id \<mapsto> items)"

definition clear_session_order :: "orders \<Rightarrow> pystr \<Rightarrow> orders" where
  "clear_session_order orders session_id = orders(session_id := None)"

text \<open>The index of the first element a loop with \<open>break\<close> stops at.\<close>

fun first_index :: "('a \<Rightarrow> bool) \<Rightarrow> 'a list \<Rightarrow> nat option" where
  "first_index P [] = None"
| "first_index P (x # xs) =
     (if P x then Some 0 else map_option Suc (first_index P xs))"

text \<open>\<open>list.pop(i)\<close> for an index inside the list.\<close>

definition pop_at :: "nat \<Rightarrow> 'a list \<Rightarrow> 'a list" where
  "pop_at i xs = take i xs @ drop (Suc i) xs"

text \<open>
  The Arabic messages of the order tools, one constructor per text of the source, with
  the values its f-string interpolates.
\<close>

datatype order_message =
    Item_not_found pystr
  | Item_unavailable pystr
  | Item_added int pystr pystr rat
  | Not_in_cart
  | Line_removed pystr
  | Quantity_updated int pystr
  | Notes_updated

datatype add_result =
    Add_failed order_message
  | Add_ok OrderItem rat int order_message

definition add_to_order ::
  "(pystr \<rightharpoonup> MenuItem) \<Rightarrow> pystr \<Rightarrow> int \<Rightarrow> pystr \<Rightarrow> pystr \<Rightarrow> orders \<Rightarrow> add_result \<times> orders" where
  "add_to_order menu iid qty nts session_id orders =
     (case menu iid of
        None \<Rightarrow> (Add_failed (Item_not_found iid), orders)
      | Some item \<Rightarrow>
          if mi_available item = Some False
          then (Add_failed (Item_unavailable (mi_name_ar item)), orders)
          else
            let order_item = \<lparr>item_id = iid, name_ar = mi_name_ar item,
                   name_en = (case mi_name_en item of None \<Rightarrow> [] | Some n \<Rightarrow> n),
                   quantity = qty, price = mi_price item, line_notes = nts,
                   line_total = mi_price item * of_int qty\<rparr>;
                order = get_session_order orders session_id;
                order1 =
                  (case first_index (\<lambda>existing. item_id existing = iid \<and> line_notes existing = nts) order of
                     Some idx \<Rightarrow>
                       (let q = quantity (order ! idx) + qty
                        in order[idx := (order ! idx)\<lparr>quantity := q,
                             line_total := price (order ! idx) * of_int q\<rparr>])
                   | None \<Rightarrow> order @ [order_item]);
                subtotal = sum_list (map line_total order1)
            in (Add_ok order_item subtotal (sum_list (map quantity order1))
                  (Item_added qty (mi_name_ar item) nts subtotal),
                set_session_order orders session_id order1))"

datatype update_result =
    Update_failed order_message
  | Update_ok pystr order_message

text \<open>
  \<open>update_order_item\<close>. The two \<open>if\<close> blocks of the source run one after the other:
  the notes are written at \<open>item_idx\<close> in the list as the quantity block left it, and
  \<open>result\<close> is bound only inside those blocks. An exception leaves the cart as the
  statements before it wrote it.
\<close>

definition update_order_item ::
  "pystr \<Rightarrow> int option \<Rightarrow> pystr option \<Rightarrow> pystr \<Rightarrow> orders \<Rightarrow> (py_error + update_result) \<times> orders" where
  "update_order_item iid qty nts session_id orders =
     (let order = get_session_order orders session_id
      in case first_index (\<lambda>item. item_id item = iid) order of
           None \<Rightarrow> (Inr (Update_failed Not_in_cart), orders)
         | Some item_idx \<Rightarrow>
             let (order1, orders1, result1) =
                   (case qty of
                      None \<Rightarrow> (order, orders, None)
                    | Some q \<Rightarrow>
                        if q \<le> 0
                        then (let order' = pop_at item_idx order
                              in (order', set_session_order orders session_id order',
                                  Some (Update_ok (ascii ''removed'')
                                          (Line_removed (name_ar (order ! item_idx))))))
                        else (let order' = order[item_idx := (order ! item_idx)\<lparr>quantity := q,
                                     line_total := price (order ! item_idx) * of_int q\<rparr>]
                              in (order', set_session_order orders session_id order',
                                  Some (Update_ok (ascii ''updated'')
                                          (Quantity_updated q (name_ar (order' ! item_idx)))))))
             in case nts of
                  None \<Rightarrow>
                    (case result1 of
                       None \<Rightarrow> (Inl UnboundLocalError, orders1)
                     | Some r \<Rightarrow> (Inr r, orders1))
                | Some n \<Rightarrow>
                    if item_idx < length order1
                    then (Inr (Update_ok (ascii ''updated'') Notes_updated),
                          set_session_order orders1 session_id
                            (order1[item_idx := (order1 ! item_idx)\<lparr>line_notes := n\<rparr>]))
                    else (Inl IndexError, orders1))"

section \<open>utils/validators.py\<close>

datatype quantity_error = Quantity_below_one | Quantity_above_99

definition validate_quantity :: "int \<Rightarrow> bool \<times> quantity_error option" where
  "validate_quantity q =
     (if q < 1 then (False, Some Quantity_below_one)
      else if q > 99 then (False, Some Quantity_above_99)
      else (True, None))"

section \<open>tools/checkout\_tools.py: calculate\_total\<close>

text \<open>
  The promo texts of \<open>calculate_total\<close>: the empty string, "10% discount (at most 30
  riyal)" and "20% discount (at most 50 riyal)" with the discount given, "the minimum
  order for this code is 100 riyal", "15 riyal discount", "the minimum order for this
  code is 75 riyal", and "the discount code is not correct".
\<close>

datatype promo_message =
    No_promo_message
  | Percent10_applied rat
  | Percent20_applied rat
  | Minimum_order_100
  | Fixed15_applied
  | Minimum_order_75
  | Code_not_correct

text \<open>The lines of \<open>breakdown_ar\<close>, joined by newlines in the source.\<close>

datatype breakdown_line =
    Subtotal_line rat
  | Delivery_line rat
  | Discount_line rat
  | Total_line rat
  | Promo_line promo_message

record totals =
  t_subtotal :: rat
  t_delivery_fee :: rat
  t_discount :: rat
  t_total :: rat
  t_breakdown_ar :: "breakdown_line list"
  t_promo_applied :: bool

datatype total_result =
    Total_cart_empty
  | Total_ok totals

text \<open>
  Amounts in \<open>calculate_total\<close> are Python floats (IEEE 754 binary64). A finite float
  is modelled by the rational number it denotes. A float operation returns the exact
  result rounded to the nearest float, ties to the even significand: \<open>round_double\<close>.
  The spacing of the floats around a positive \<open>x\<close> with \<open>2 ^ e \<le> x < 2 ^ (e + 1)\<close> is
  \<open>2 ^ (e - 52)\<close>, and \<open>2 ^ (- 1074)\<close> below \<open>2 ^ (- 1022)\<close>. Overflow to infinity, from
  \<open>2 ^ 1024\<close> on, is left out.
\<close>

function binade_up :: "rat \<Rightarrow> nat" where
  "binade_up x = (if x \<ge> 2 then Suc (binade_up (x / 2)) else 0)"
  by pat_completeness auto
termination
proof (relation "measure (\<lambda>x. nat \<lfloor>x\<rfloor>)")
  show "wf (measure (\<lambda>x::rat. nat \<lfloor>x\<rfloor>))" by simp
next
  fix x :: rat assume "2 \<le> x"
  then have "\<lfloor>x / 2\<rfloor> < \<lfloor>x\<rfloor>" by linarith
  moreover from \<open>2 \<le> x\<close> have "0 < \<lfloor>x\<rfloor>" by linarith
  ultimately show "(x / 2, x) \<in> measure (\<lambda>x. nat \<lfloor>x\<rfloor>)" by simp
qed

function binade_down :: "rat \<Rightarrow> nat" where
  "binade_down x = (if 0 < x \<and> x < 1 then Suc (binade_down (x * 2)) else 0)"
  by pat_completeness auto
termination
proof (relation "measure (\<lambda>x. nat \<lfloor>2 / x\<rfloor>)")
  show "wf (measure (\<lambda>x::rat. nat \<lfloor>2 / x\<rfloor>))" by simp
next
  fix x :: rat assume a: "0 < x \<and> x < 1"
  define y where "y = 1 / x"
  from a have y: "1 < y" by (simp add: y_def)
  have e: "2 / (x * 2) = y" "2 / x = 2 * y" by (simp_all add: y_def)
  from y have "\<lfloor>y\<rfloor> < \<lfloor>2 * y\<rfloor>" by linarith
  moreover from y have "0 < \<lfloor>2 * y\<rfloor>" by linarith
  ultimately show "(x * 2, x) \<in> measure (\<lambda>x. nat \<lfloor>2 / x\<rfloor>)"
    unfolding in_measure e by linarith
qed

declare binade_up.simps [simp del] binade_down.simps [simp del]

text \<open>For a positive \<open>x\<close>, the \<open>e\<close> with \<open>2 ^ e \<le> x < 2 ^ (e + 1)\<close>.\<close>

definition float_exponent :: "rat \<Rightarrow> int" where
  "float_exponent x = (if x \<ge> 1 then int (binade_up x) else - int (binade_down x))"

definition round_half_even :: "rat \<Rightarrow> int" where
  "round_half_even q =
     (let f = \<lfloor>q\<rfloor>;
          r = q - of_int f
      in if r < 1 / 2 then f else if r > 1 / 2 then f + 1 else if even f then f else f + 1)"

definition round_double :: "rat \<Rightarrow> rat" where
  "round_double x =
     (if x = 0 then 0
      else
        let e = max (float_exponent \<bar>x\<bar>) (- 1022);
            ulp = (if e \<ge> 52 then 2 ^ nat (e - 52) else 1 / 2 ^ nat (52 - e))
        in sgn x * of_int (round_half_even (\<bar>x\<bar> / ulp)) * ulp)"

text \<open>The floats that the literals \<open>0.10\<close> and \<open>0.20\<close> denote.\<close>

definition float_0_10 :: rat where
  "float_0_10 = 3602879701896397 / 36028797018963968"

definition float_0_20 :: rat where
  "float_0_20 = 3602879701896397 / 18014398509481984"

text \<open>
  \<open>calculate_total\<close>. \<open>upper\<close> is \<open>str.upper\<close> and \<open>fsum\<close> is the built-in \<open>sum\<close> on the
  floats of the cart, whose summation algorithm belongs to the interpreter. The
  comparisons are exact.
\<close>

definition calculate_total ::
  "(rat list \<Rightarrow> rat) \<Rightarrow> (pystr \<Rightarrow> pystr) \<Rightarrow> orders \<Rightarrow> pystr \<Rightarrow> rat \<Rightarrow> pystr option
     \<Rightarrow> total_result" where
  "calculate_total fsum upper orders session_id fee promo_code =
     (let order = get_session_order orders session_id
      in if order = [] then Total_cart_empty
         else
           let subtotal = fsum (map line_total order);
               (discount, promo_msg) =
                 (case promo_code of
                    None \<Rightarrow> (0, No_promo_message)
                  | Some code \<Rightarrow>
                      if code = [] then (0, No_promo_message)
                      else
                        let promo_code_upper = upper code
                        in if promo_code_upper = ascii ''WELCOME10''
                           then (let d = round_double (subtotal * float_0_10);
                                     d1 = (if d > 30 then 30 else d)
                                 in (d1, Percent10_applied d1))
                           else if promo_code_upper = ascii ''FIRST20''
                           then (if subtotal \<ge> 100
                                 then (let d = round_double (subtotal * float_0_20);
                                           d1 = (if d > 50 then 50 else d)
                                       in (d1, Percent20_applied d1))
                                 else (0, Minimum_order_100))
                           else if promo_code_upper = ascii ''FREE15''
                           then (if subtotal \<ge> 75 then (15, Fixed15_applied)
                                 else (0, Minimum_order_75))
                           else (0, Code_not_correct));
               total = round_double (round_double (subtotal + fee) - discount);
               breakdown_lines =
                 [Subtotal_line subtotal]
                 @ (if fee > 0 then [Delivery_line fee] else [])
                 @ (if discount > 0 then [Discount_line discount] else [])
                 @ [Total_line total]
                 @ (if promo_msg \<noteq> No_promo_message then [Promo_line promo_msg] else [])
           in Total_ok \<lparr>t_subtotal = subtotal, t_delivery_fee = fee, t_discount = discount,
                t_total = total, t_breakdown_ar = breakdown_lines,
                t_promo_applied = (discount > 0)\<rparr>)"

section \<open>db/repositories/promo\_repo.py and mcp\_server/tools/order.py\<close>

record PromoCode =
  pc_code :: pystr
  pc_discount_type :: pystr
  pc_discount_value :: rat
  pc_min_order_amount :: rat
  pc_max_discount :: "rat option"
  pc_usage_limit :: "int option"
  pc_usage_count :: int
  pc_valid_from :: "int option"
  pc_valid_until :: "int option"
  pc_is_active :: bool

text \<open>
  The messages of \<open>validate_promo\<close>: "the discount code is not correct", "the discount
  code is not active", "the uses of this code are exhausted", "the discount code has
  not started yet", "the discount code has expired", "the minimum order is ... riyal"
  and "a discount of ... riyal was applied".
\<close>

datatype validation_message =
    Promo_not_correct
  | Promo_not_active
  | Promo_uses_exhausted
  | Promo_not_started
  | Promo_expired
  | Promo_minimum_order rat
  | Promo_discount_applied rat

text \<open>
  The table \<open>promo_codes\<close> is a list of rows; the query compares \<open>UPPER(code)\<close> with the
  upper-cased argument. Points in time are integers.
\<close>

definition get_promo_by_code :: "(pystr \<Rightarrow> pystr) \<Rightarrow> PromoCode list \<Rightarrow> pystr \<Rightarrow> PromoCode option" where
  "get_promo_by_code upper promo_codes code =
     find (\<lambda>row. upper (pc_code row) = upper code) promo_codes"

text \<open>
  \<open>validate_promo\<close>. A usage limit or a maximum discount that is \<open>None\<close> or zero is
  falsy and skips its check.
\<close>

definition validate_promo ::
  "(pystr \<Rightarrow> pystr) \<Rightarrow> PromoCode list \<Rightarrow> int \<Rightarrow> pystr \<Rightarrow> rat \<Rightarrow> bool \<times> rat \<times> validation_message" where
  "validate_promo upper promo_codes now code subtotal =
     (case get_promo_by_code upper promo_codes code of
        None \<Rightarrow> (False, 0, Promo_not_correct)
      | Some promo \<Rightarrow>
          if \<not> pc_is_active promo then (False, 0, Promo_not_active)
          else if (case pc_usage_limit promo of
                     None \<Rightarrow> False
                   | Some l \<Rightarrow> l \<noteq> 0 \<and> pc_usage_count promo \<ge> l)
          then (False, 0, Promo_uses_exhausted)
          else if (case pc_valid_from promo of None \<Rightarrow> False | Some t \<Rightarrow> now < t)
          then (False, 0, Promo_not_started)
          else if (case pc_valid_until promo of None \<Rightarrow> False | Some t \<Rightarrow> now > t)
          then (False, 0, Promo_expired)
          else if subtotal < pc_min_order_amount promo
          then (False, 0, Promo_minimum_order (pc_min_order_amount promo))
          else
            let discount =
                  (if pc_discount_type promo = ascii ''percentage''
                   then (let d = subtotal * pc_discount_value promo / 100
                         in case pc_max_discount promo of
                              None \<Rightarrow> d
                            | Some m \<Rightarrow> if m \<noteq> 0 then min d m else d)
                   else pc_discount_value promo);
                discount1 = min discount subtotal
            in (True, discount1, Promo_discount_applied discount1))"

record computed_totals =
  c_subtotal :: rat
  c_delivery_fee :: rat
  c_discount :: rat
  c_total :: rat
  c_promo_code :: "pystr option"
  c_promo_message_ar :: "validation_message option"

text \<open>
  \<open>compute_totals\<close> of the MCP server, on the cart of the session record;
  \<open>c_promo_message_ar\<close> is \<open>None\<close> for the empty string.
\<close>

definition compute_totals ::
  "(pystr \<Rightarrow> pystr) \<Rightarrow> PromoCode list \<Rightarrow> int \<Rightarrow> rat \<Rightarrow> CartItem list \<Rightarrow> pystr option \<Rightarrow> pystr
     \<Rightarrow> computed_totals" where
  "compute_totals upper promo_codes now settings_delivery_fee cart_items promo_code otype =
     (let subtotal = sum_list (map ci_total_price cart_items);
          fee = (if otype = ascii ''delivery'' then settings_delivery_fee else 0);
          (discount, promo_msg) =
            (case promo_code of
               None \<Rightarrow> (0, None)
             | Some code \<Rightarrow>
                 if code = [] then (0, None)
                 else (case validate_promo upper promo_codes now code subtotal of
                         (is_valid, disc_amount, msg) \<Rightarrow>
                           if is_valid then (disc_amount, Some msg) else (0, Some msg)))
      in \<lparr>c_subtotal = subtotal, c_delivery_fee = fee, c_discount = discount,
          c_total = subtotal + fee - discount, c_promo_code = promo_code,
          c_promo_message_ar = promo_msg\<rparr>)"

section \<open>tools/checkout\_tools.py: confirm\_order and the order store\<close>

record order_row =
  or_id :: int
  or_session_id :: pystr
  or_customer_name :: pystr
  or_customer_phone :: pystr
  or_delivery_address :: pystr
  or_order_type :: pystr
  or_subtotal :: rat
  or_delivery_fee :: rat
  or_discount_amount :: rat
  or_total :: rat
  or_status :: pystr
  or_notes :: pystr

record order_item_row =
  oi_order_id :: int
  oi_menu_item_id :: int
  oi_item_name_ar :: pystr
  oi_quantity :: int
  oi_unit_price :: rat
  oi_total_price :: rat
  oi_special_instructions :: pystr

text \<open>
  The tables \<open>orders\<close> and \<open>order_items\<close> and the sequence of order ids. The rows a
  transaction writes are seen only once it commits.
\<close>

record database =
  db_orders :: "order_row list"
  db_order_items :: "order_item_row list"
  db_next_id :: int

text \<open>
  What can go wrong in the store during one call: the connection is refused, the
  statement with the given number raises (0 is the insert of the order, \<open>k\<close> the insert
  of the \<open>k\<close>-th line), or the commit raises.
\<close>

record store_faults =
  connect_fails :: bool
  failing_statement :: "nat option"
  commit_fails :: bool

text \<open>
  The loop over the order lines inside the transaction; \<open>None\<close> is an exception.
  \<open>py_int\<close> is Python's \<open>int\<close> on a string, \<open>None\<close> when it raises ValueError.
\<close>

fun insert_order_items ::
  "store_faults \<Rightarrow> (pystr \<Rightarrow> int option) \<Rightarrow> int \<Rightarrow> nat \<Rightarrow> OrderItem list
     \<Rightarrow> order_item_row list \<Rightarrow> order_item_row list option" where
  "insert_order_items faults py_int order_db_id k [] rows = Some rows"
| "insert_order_items faults py_int order_db_id k (item # items) rows =
     (case py_int (item_id item) of
        None \<Rightarrow> None
      | Some menu_item_id \<Rightarrow>
          if failing_statement faults = Some k then None
          else insert_order_items faults py_int order_db_id (Suc k) items
                 (rows @ [\<lparr>oi_order_id = order_db_id, oi_menu_item_id = menu_item_id,
                    oi_item_name_ar = name_ar item, oi_quantity = quantity item,
                    oi_unit_price = price item, oi_total_price = line_total item,
                    oi_special_instructions = line_notes item\<rparr>]))"

text \<open>
  \<open>save_order_to_database_sync\<close>: every exception is caught, the transaction is rolled
  back and \<open>False\<close> is returned; the rows are written only by the commit. The unused
  parameter \<open>order_id\<close> of the source is left out.
\<close>

definition save_order_to_database_sync ::
  "store_faults \<Rightarrow> (pystr \<Rightarrow> int option) \<Rightarrow> database \<Rightarrow> pystr \<Rightarrow> pystr \<Rightarrow> pystr \<Rightarrow> pystr
     \<Rightarrow> pystr \<Rightarrow> OrderItem list \<Rightarrow> rat \<Rightarrow> rat \<Rightarrow> rat \<Rightarrow> rat \<Rightarrow> pystr \<Rightarrow> bool \<times> database" where
  "save_order_to_database_sync faults py_int db session_id cname cphone distr otype
       order_items sub fee disc tot nts =
     (if connect_fails faults then (False, db)
      else if failing_statement faults = Some 0 then (False, db)
      else
        let order_db_id = db_next_id db;
            header = \<lparr>or_id = order_db_id, or_session_id = session_id,
               or_customer_name = cname, or_customer_phone = cphone,
               or_delivery_address = distr, or_order_type = otype, or_subtotal = sub,
               or_delivery_fee = fee, or_discount_amount = disc, or_total = tot,
               or_status = ascii ''confirmed'', or_notes = nts\<rparr>
        in case insert_order_items faults py_int order_db_id 1 order_items (db_order_items db) of
             None \<Rightarrow> (False, db)
           | Some item_rows \<Rightarrow>
               if commit_fails faults then (False, db)
               else (True, \<lparr>db_orders = db_orders db @ [header],
                             db_order_items = item_rows,
                             db_next_id = order_db_id + 1\<rparr>))"

record order_record =
  rec_order_id :: pystr
  rec_customer_name :: pystr
  rec_customer_phone :: pystr
  rec_district :: pystr
  rec_order_type :: pystr
  rec_items :: "OrderItem list"
  rec_subtotal :: rat
  rec_delivery_fee :: rat
  rec_discount :: rat
  rec_total :: rat
  rec_notes :: pystr
  rec_status :: pystr
  rec_created_at :: pystr

text \<open>
  The module state of the checkout tools: the carts (\<open>_orders\<close> of order\_tools.py), the
  in-memory backup \<open>_confirmed_orders\<close>, and the database.
\<close>

record tool_state =
  ts_orders :: orders
  ts_confirmed_orders :: "pystr \<rightharpoonup> order_record"
  ts_db :: database

text \<open>The texts "the cart is empty", "please enter the name", "please enter the mobile number".\<close>

datatype confirm_message = Cart_is_empty | Name_required | Phone_required

text \<open>
  The values the confirmation text interpolates: the fee line is present for a
  delivery, the discount line for a positive discount, and the location is the
  district for a delivery and the branch (\<open>None\<close>) otherwise.
\<close>

record confirmation =
  cf_order_id :: pystr
  cf_items :: "(int \<times> pystr \<times> rat) list"
  cf_subtotal :: rat
  cf_fee_text :: "rat option"
  cf_discount_text :: "rat option"
  cf_total :: rat
  cf_location :: "pystr option"
  cf_customer_name :: pystr
  cf_customer_phone :: pystr

datatype confirm_result =
    Confirm_failed confirm_message
  | Confirm_ok pystr rat confirmation

text \<open>
  \<open>confirm_order\<close>. The order id and the creation time come from the clock and a
  random UUID and are arguments. The result of the database write is only printed:
  the cart is cleared and the success result is built whatever \<open>db_saved\<close> is.
\<close>

definition confirm_order ::
  "store_faults \<Rightarrow> (pystr \<Rightarrow> int option) \<Rightarrow> pystr \<Rightarrow> pystr \<Rightarrow> tool_state
     \<Rightarrow> pystr \<Rightarrow> pystr \<Rightarrow> pystr \<Rightarrow> pystr \<Rightarrow> rat \<Rightarrow> rat \<Rightarrow> pystr \<Rightarrow> pystr
     \<Rightarrow> confirm_result \<times> tool_state" where
  "confirm_order faults py_int new_order_id created_at st session_id cname cphone distr
       fee disc otype nts =
     (let order_items = get_session_order (ts_orders st) session_id
      in if order_items = [] then (Confirm_failed Cart_is_empty, st)
         else if cname = [] then (Confirm_failed Name_required, st)
         else if cphone = [] then (Confirm_failed Phone_required, st)
         else
           let subtotal = sum_list (map line_total order_items);
               actual_delivery_fee = (if otype = ascii ''delivery'' then fee else 0);
               total = subtotal + actual_delivery_fee - disc;
               order_rec = \<lparr>rec_order_id = new_order_id, rec_customer_name = cname,
                  rec_customer_phone = cphone, rec_district = distr, rec_order_type = otype,
                  rec_items = order_items, rec_subtotal = subtotal,
                  rec_delivery_fee = actual_delivery_fee, rec_discount = disc,
                  rec_total = total, rec_notes = nts, rec_status = ascii ''confirmed'',
                  rec_created_at = created_at\<rparr>;
               st1 = st\<lparr>ts_confirmed_orders := (ts_confirmed_orders st)(new_order_id \<mapsto> order_rec)\<rparr>;
               (db_saved, db1) =
                 save_order_to_database_sync faults py_int (ts_db st1) session_id cname cphone
                   distr otype order_items subtotal actual_delivery_fee disc total nts;
               st2 = st1\<lparr>ts_db := db1\<rparr>;
               st3 = st2\<lparr>ts_orders := clear_session_order (ts_orders st2) session_id\<rparr>;
               conf = \<lparr>cf_order_id = new_order_id,
                  cf_items = map (\<lambda>item. (quantity item, name_ar item, line_total item)) order_items,
                  cf_subtotal = subtotal,
                  cf_fee_text = (if otype = ascii ''delivery'' then Some actual_delivery_fee else None),
                  cf_discount_text = (if disc > 0 then Some disc else None),
                  cf_total = total,
                  cf_location = (if otype = ascii ''delivery'' then Some distr else None),
                  cf_customer_name = cname, cf_customer_phone = cphone\<rparr>
           in (Confirm_ok new_order_id total conf, st3))"

section \<open>Python string operations\<close>

text \<open>\<open>sub in s\<close> on strings: \<open>sub\<close> occurs in \<open>s\<close> as a contiguous piece.\<close>

fun py_in :: "pystr \<Rightarrow> pystr \<Rightarrow> bool" where
  "py_in sub [] = (sub = [])"
| "py_in sub (c # cs) = (prefix sub (c # cs) \<or> py_in sub cs)"

text \<open>The code points \<open>str.isspace\<close> accepts, which \<open>str.strip\<close> and \<open>str.split\<close> remove.\<close>

definition py_isspace :: "nat \<Rightarrow> bool" where
  "py_isspace c =
     ((9 \<le> c \<and> c \<le> 13) \<or> (28 \<le> c \<and> c \<le> 32) \<or> c = 133 \<or> c = 160 \<or> c = 5760
      \<or> (8192 \<le> c \<and> c \<le> 8202) \<or> c = 8232 \<or> c = 8233 \<or> c = 8239 \<or> c = 8287
      \<or> c = 12288)"

definition py_strip :: "pystr \<Rightarrow> pystr" where
  "py_strip s = rev (dropWhile py_isspace (rev (dropWhile py_isspace s)))"

text \<open>
  \<open>s.replace(old, new)\<close> for a non-empty \<open>old\<close>: the occurrences are replaced from the
  left and do not overlap; the counter is the number of code points of a matched
  occurrence still to be skipped.
\<close>

fun replace_from :: "nat \<Rightarrow> pystr \<Rightarrow> pystr \<Rightarrow> pystr \<Rightarrow> pystr" where
  "replace_from k old new [] = []"
| "replace_from (Suc k) old new (c # cs) = replace_from k old new cs"
| "replace_from 0 old new (c # cs) =
     (if old \<noteq> [] \<and> prefix old (c # cs)
      then new @ replace_from (length old - 1) old new cs
      else c # replace_from 0 old new cs)"

definition py_replace :: "pystr \<Rightarrow> pystr \<Rightarrow> pystr \<Rightarrow> pystr" where
  "py_replace old new s = replace_from 0 old new s"

text \<open>\<open>s.split()\<close>: the maximal pieces without whitespace; \<open>cur\<close> is the piece being read.\<close>

fun split_from :: "pystr \<Rightarrow> pystr \<Rightarrow> pystr list" where
  "split_from cur [] = (if cur = [] then [] else [cur])"
| "split_from cur (c # cs) =
     (if py_isspace c
      then (if cur = [] then split_from [] cs else cur # split_from [] cs)
      else split_from (cur @ [c]) cs)"

definition py_split :: "pystr \<Rightarrow> pystr list" where
  "py_split s = split_from [] s"

fun py_join :: "pystr \<Rightarrow> pystr list \<Rightarrow> pystr" where
  "py_join sep [] = []"
| "py_join sep [w] = w"
| "py_join sep (w # ws) = w @ sep @ py_join sep ws"

section \<open>graph/state.py and graph/workflow.py: the agent nodes\<close>

datatype agent = Agent_greeting | Agent_location | Agent_order | Agent_checkout | Agent_end

datatype message = AIMessage pystr | HumanMessage pystr | SystemMessage pystr | ToolMessage pystr

fun content :: "message \<Rightarrow> pystr" where
  "content (AIMessage c) = c"
| "content (HumanMessage c) = c"
| "content (SystemMessage c) = c"
| "content (ToolMessage c) = c"

fun is_system_message :: "message \<Rightarrow> bool" where
  "is_system_message (SystemMessage c) = True"
| "is_system_message m = False"

text \<open>
  The handoff summaries of the location and checkout nodes, one constructor per text
  with the values it interpolates: the empty summary of a new session; "the customer
  wants pickup from the branch and is ready to choose"; "the customer is from
  (district), delivery fee (fee)"; "the customer changed to pickup from the branch";
  "the customer changed the location to (district)"; "the customer wants to change the
  location (back from checkout)"; "the customer wants to modify the order". A district
  that is \<open>None\<close> is the \<open>None\<close> an unset state field holds.
\<close>

datatype handoff_summary =
    Summary_empty
  | Summary_pickup_ready
  | Summary_delivery_from "pystr option" rat
  | Summary_changed_to_pickup
  | Summary_changed_location "pystr option"
  | Summary_back_from_checkout
  | Summary_modify_order

record AgentState =
  messages :: "message list"
  current_agent :: agent
  district :: "pystr option"
  district_validated :: bool
  delivery_fee :: rat
  estimated_time :: "pystr option"
  order_type :: pystr
  order_confirmed :: bool
  order_id :: "pystr option"
  handoff_summary_ar :: handoff_summary
  came_from_checkout :: bool
  came_from_order :: bool

text \<open>The dictionary a node returns: \<open>None\<close> is an absent key.\<close>

record updates =
  u_messages :: "message list"
  u_current_agent :: "agent option"
  u_district :: "pystr option"
  u_district_validated :: "bool option"
  u_delivery_fee :: "rat option"
  u_estimated_time :: "pystr option"
  u_order_type :: "pystr option"
  u_order_confirmed :: "bool option"
  u_order_id :: "pystr option"
  u_handoff_summary_ar :: "handoff_summary option"
  u_came_from_checkout :: "bool option"
  u_came_from_order :: "bool option"

text \<open>
  The graph writes the keys of a node's dictionary into the state; the message thread
  a node returns is the state's thread continued.
\<close>

definition apply_updates :: "AgentState \<Rightarrow> updates \<Rightarrow> AgentState" where
  "apply_updates state u =
     \<lparr>messages = u_messages u,
      current_agent = (case u_current_agent u of None \<Rightarrow> current_agent state | Some v \<Rightarrow> v),
      district = (case u_district u of None \<Rightarrow> district state | Some v \<Rightarrow> Some v),
      district_validated =
        (case u_district_validated u of None \<Rightarrow> district_validated state | Some v \<Rightarrow> v),
      delivery_fee = (case u_delivery_fee u of None \<Rightarrow> delivery_fee state | Some v \<Rightarrow> v),
      estimated_time =
        (case u_estimated_time u of None \<Rightarrow> estimated_time state | Some v \<Rightarrow> Some v),
      order_type = (case u_order_type u of None \<Rightarrow> order_type state | Some v \<Rightarrow> v),
      order_confirmed =
        (case u_order_confirmed u of None \<Rightarrow> order_confirmed state | Some v \<Rightarrow> v),
      order_id = (case u_order_id u of None \<Rightarrow> order_id state | Some v \<Rightarrow> Some v),
      handoff_summary_ar =
        (case u_handoff_summary_ar u of None \<Rightarrow> handoff_summary_ar state | Some v \<Rightarrow> v),
      came_from_checkout =
        (case u_came_from_checkout u of None \<Rightarrow> came_from_checkout state | Some v \<Rightarrow> v),
      came_from_order =
        (case u_came_from_order u of None \<Rightarrow> came_from_order state | Some v \<Rightarrow> v)\<rparr>"

definition only_messages :: "message list \<Rightarrow> updates" where
  "only_messages msgs =
     \<lparr>u_messages = msgs, u_current_agent = None, u_district = None,
      u_district_validated = None, u_delivery_fee = None, u_estimated_time = None,
      u_order_type = None, u_order_confirmed = None, u_order_id = None,
      u_handoff_summary_ar = None, u_came_from_checkout = None, u_came_from_order = None\<rparr>"

definition extract_handoff :: "pystr \<Rightarrow> agent option" where
  "extract_handoff c =
     (if py_in (ascii ''[HANDOFF:location]'') c then Some Agent_location
      else if py_in (ascii ''[HANDOFF:order]'') c then Some Agent_order
      else if py_in (ascii ''[HANDOFF:checkout]'') c then Some Agent_checkout
      else if py_in (ascii ''[HANDOFF:end]'') c then Some Agent_end
      else None)"

definition clean_handoff_tag :: "pystr \<Rightarrow> pystr" where
  "clean_handoff_tag c =
     foldl (\<lambda>c tag. py_strip (py_replace tag [] c)) c
       [ascii ''[HANDOFF:location]'', ascii ''[HANDOFF:order]'',
        ascii ''[HANDOFF:checkout]'', ascii ''[HANDOFF:end]'']"

text \<open>
  The context message a node puts before the thread starts with an opening bracket,
  the Arabic word for "information" and a colon; the node removes it from the thread
  the agent returns.
\<close>

definition context_marker :: pystr where
  "context_marker = [91, 1605, 1593, 1604, 1608, 1605, 1575, 1578, 58]"

definition without_context :: "message list \<Rightarrow> message list" where
  "without_context msgs =
     filter (\<lambda>m. \<not> (is_system_message m \<and> py_in context_marker (content m))) msgs"

text \<open>
  What \<open>json.loads\<close> gives for the content of a message, reduced to the keys the nodes
  read: the truthiness of \<open>success\<close> and \<open>covered\<close>, and the other keys when present.
  \<open>json_loads\<close> is an argument of the nodes; \<open>None\<close> is content that is not a JSON
  object.
\<close>

record json_dict =
  jd_success :: bool
  jd_order_type :: "pystr option"
  jd_district :: "pystr option"
  jd_delivery_fee :: "rat option"
  jd_covered :: bool
  jd_estimated_time :: "pystr option"
  jd_order_id :: "pystr option"

text \<open>The entry of the default session in \<open>_order_type_store\<close> (location\_tools.py).\<close>

record order_type_info =
  si_order_type :: pystr
  si_district :: pystr
  si_delivery_fee :: rat

definition scan_location_result :: "updates \<Rightarrow> json_dict \<Rightarrow> updates" where
  "scan_location_result u d =
     (case jd_order_type d of
        Some ot \<Rightarrow>
          if jd_success d
          then (let u1 = u\<lparr>u_order_type := Some ot,
                          u_district := Some (case jd_district d of None \<Rightarrow> [] | Some v \<Rightarrow> v),
                          u_delivery_fee := Some (case jd_delivery_fee d of None \<Rightarrow> 0 | Some v \<Rightarrow> v)\<rparr>
                in if ot = ascii ''delivery'' then u1\<lparr>u_district_validated := Some True\<rparr> else u1)
          else if jd_covered d
          then u\<lparr>u_estimated_time := Some (case jd_estimated_time d of None \<Rightarrow> [] | Some v \<Rightarrow> v)\<rparr>
          else u
      | None \<Rightarrow>
          if jd_covered d
          then u\<lparr>u_estimated_time := Some (case jd_estimated_time d of None \<Rightarrow> [] | Some v \<Rightarrow> v)\<rparr>
          else u)"

text \<open>
  \<open>call_location_agent\<close>, from the thread \<open>msgs\<close> the location agent returned: the
  context message is filtered out, the tool results are scanned, the stored order type
  is the fallback, and the handoff of the last message is redirected by the
  \<open>came_from_checkout\<close> flag of the state.
\<close>

definition call_location_agent ::
  "(pystr \<Rightarrow> json_dict option) \<Rightarrow> order_type_info \<Rightarrow> AgentState \<Rightarrow> message list \<Rightarrow> updates" where
  "call_location_agent json_loads stored_info state msgs =
     (let thread = without_context msgs;
          u0 = foldl (\<lambda>u msg. case json_loads (content msg) of
                                 None \<Rightarrow> u | Some d \<Rightarrow> scan_location_result u d)
                 (only_messages thread) thread;
          u1 = (if u_order_type u0 = None
                   \<and> (si_order_type stored_info \<noteq> ascii ''delivery'' \<or> si_district stored_info \<noteq> [])
                then u0\<lparr>u_order_type := Some (si_order_type stored_info),
                        u_district := Some (si_district stored_info),
                        u_delivery_fee := Some (si_delivery_fee stored_info)\<rparr>
                else u0)
      in if thread = [] then u1
         else
           let last_content = content (last thread)
           in case extract_handoff last_content of
                None \<Rightarrow> u1
              | Some handoff0 \<Rightarrow>
                  let (handoff, last_content1) =
                        (if handoff0 = Agent_order \<and> came_from_checkout state
                         then (Agent_checkout, py_replace (ascii ''[HANDOFF:order]'') [] last_content)
                         else if handoff0 = Agent_checkout \<and> \<not> came_from_checkout state
                         then (Agent_order, py_replace (ascii ''[HANDOFF:checkout]'') [] last_content)
                         else (handoff0, last_content));
                      thread1 = butlast thread @ [AIMessage (clean_handoff_tag last_content1)];
                      otype = (case u_order_type u1 of None \<Rightarrow> order_type state | Some v \<Rightarrow> v);
                      dname = (case u_district u1 of None \<Rightarrow> district state | Some v \<Rightarrow> Some v);
                      dfee = (case u_delivery_fee u1 of None \<Rightarrow> delivery_fee state | Some v \<Rightarrow> v);
                      u2 = u1\<lparr>u_current_agent := Some handoff, u_messages := thread1,
                              u_came_from_checkout := Some False, u_came_from_order := Some False\<rparr>
                  in if handoff = Agent_order
                     then u2\<lparr>u_handoff_summary_ar :=
                            Some (if otype = ascii ''pickup'' then Summary_pickup_ready
                                  else Summary_delivery_from dname dfee)\<rparr>
                     else if handoff = Agent_checkout
                     then u2\<lparr>u_handoff_summary_ar :=
                            Some (if otype = ascii ''pickup'' then Summary_changed_to_pickup
                                  else Summary_changed_location dname)\<rparr>
                     else u2)"

text \<open>
  \<open>call_checkout_agent\<close>: a tool result with a truthy \<open>order_id\<close> confirms the order; a
  handoff to the location agent sets the \<open>came_from_checkout\<close> flag.
\<close>

definition call_checkout_agent ::
  "(pystr \<Rightarrow> json_dict option) \<Rightarrow> AgentState \<Rightarrow> message list \<Rightarrow> updates" where
  "call_checkout_agent json_loads state msgs =
     (let thread = without_context msgs;
          u1 = foldl (\<lambda>u msg. case json_loads (content msg) of
                                 None \<Rightarrow> u
                               | Some d \<Rightarrow>
                                   (case jd_order_id d of
                                      None \<Rightarrow> u
                                    | Some oid \<Rightarrow>
                                        if oid \<noteq> []
                                        then u\<lparr>u_order_id := Some oid, u_order_confirmed := Some True\<rparr>
                                        else u))
                 (only_messages thread) thread
      in if thread = [] then u1
         else
           let last_content = content (last thread)
           in case extract_handoff last_content of
                None \<Rightarrow> u1
              | Some handoff \<Rightarrow>
                  let thread1 = butlast thread @ [AIMessage (clean_handoff_tag last_content)];
                      u2 = u1\<lparr>u_current_agent := Some handoff, u_messages := thread1\<rparr>
                  in if handoff = Agent_location
                     then u2\<lparr>u_handoff_summary_ar := Some Summary_back_from_checkout,
                             u_came_from_checkout := Some True\<rparr>
                     else if handoff = Agent_order
                     then u2\<lparr>u_handoff_summary_ar := Some Summary_modify_order\<rparr>
                     else u2)"

datatype node = greeting_node | location_node | order_node | checkout_node | END

definition route_after_location :: "AgentState \<Rightarrow> node" where
  "route_after_location state =
     (if current_agent state = Agent_order then order_node
      else if current_agent state = Agent_checkout then checkout_node
      else END)"

definition route_after_checkout :: "AgentState \<Rightarrow> node" where
  "route_after_checkout state =
     (if current_agent state = Agent_location then location_node
      else if current_agent state = Agent_order then order_node
      else END)"

text \<open>One run of a node: the node's dictionary written into the state.\<close>

definition location_node_step ::
  "(pystr \<Rightarrow> json_dict option) \<Rightarrow> AgentState \<Rightarrow> order_type_info \<times> message list \<Rightarrow> AgentState" where
  "location_node_step json_loads state turn =
     apply_updates state (call_location_agent json_loads (fst turn) state (snd turn))"

definition checkout_node_step ::
  "(pystr \<Rightarrow> json_dict option) \<Rightarrow> AgentState \<Rightarrow> message list \<Rightarrow> AgentState" where
  "checkout_node_step json_loads state msgs =
     apply_updates state (call_checkout_agent json_loads state msgs)"

text \<open>The handoff a thread ends with, as the nodes read it.\<close>

definition thread_handoff :: "message list \<Rightarrow> agent option" where
  "thread_handoff msgs =
     (let thread = without_context msgs
      in if thread = [] then None else extract_handoff (content (last thread)))"

section \<open>utils/arabic\_utils.py: names of areas\<close>

text \<open>
  \<open>clean_arabic_text\<close>: the diacritics U+064B to U+065F and U+0670 are removed, the
  alef forms U+0622, U+0623, U+0625 become U+0627, teh marbuta U+0629 becomes heh
  U+0647, the tatweel U+0640 is removed, and whitespace is collapsed to single spaces.
\<close>

definition clean_arabic_text :: "pystr \<Rightarrow> pystr" where
  "clean_arabic_text text0 =
     (if text0 = [] then []
      else
        let t1 = filter (\<lambda>c. \<not> ((1611 \<le> c \<and> c \<le> 1631) \<or> c = 1648)) text0;
            t2 = map (\<lambda>c. if c = 1571 \<or> c = 1573 \<or> c = 1570 \<or> c = 1575 then 1575 else c) t1;
            t3 = map (\<lambda>c. if c = 1577 then 1607 else c) t2;
            t4 = filter (\<lambda>c. c \<noteq> 1600) t3;
            t5 = py_join [32] (py_split t4)
        in py_strip t5)"

text \<open>
  The prefixes \<open>normalize_area_name\<close> drops, each followed by a space: "district",
  "area", "street", "road". Each is tried once, in this order.
\<close>

definition area_prefixes :: "pystr list" where
  "area_prefixes = [[1581, 1610, 32], [1605, 1606, 1591, 1602, 1577, 32], [1588, 1575, 1585, 1593, 32], [1591, 1585, 1610, 1602, 32]]"

definition normalize_area_name :: "pystr \<Rightarrow> pystr" where
  "normalize_area_name name =
     py_strip (foldl (\<lambda>n p. if prefix p n then drop (length p) n else n)
                 (clean_arabic_text name) area_prefixes)"

section \<open>tools/location\_tools.py: the covered districts\<close>

text \<open>The prefix "district" with its space, and the word "minute".\<close>

definition hayy :: pystr where
  "hayy = [1581, 1610, 32]"

definition daqiqa :: pystr where
  "daqiqa = [1583, 1602, 1610, 1602, 1577]"

text \<open>The names of the fourteen districts, with the definite article.\<close>

definition al_narjis :: pystr where
  "al_narjis = [1575, 1604, 1606, 1585, 1580, 1587]"

definition al_yasmin :: pystr where
  "al_yasmin = [1575, 1604, 1610, 1575, 1587, 1605, 1610, 1606]"

definition al_malqa :: pystr where
  "al_malqa = [1575, 1604, 1605, 1604, 1602, 1575]"

definition al_sahafa :: pystr where
  "al_sahafa = [1575, 1604, 1589, 1581, 1575, 1601, 1577]"

definition al_aqiq :: pystr where
  "al_aqiq = [1575, 1604, 1593, 1602, 1610, 1602]"

definition al_wurud :: pystr where
  "al_wurud = [1575, 1604, 1608, 1585, 1608, 1583]"

definition al_rawdah :: pystr where
  "al_rawdah = [1575, 1604, 1585, 1608, 1590, 1577]"

definition al_rabwah :: pystr where
  "al_rabwah = [1575, 1604, 1585, 1576, 1608, 1577]"

definition al_sulaymaniyah :: pystr where
  "al_sulaymaniyah = [1575, 1604, 1587, 1604, 1610, 1605, 1575, 1606, 1610, 1577]"

definition al_olaya :: pystr where
  "al_olaya = [1575, 1604, 1593, 1604, 1610, 1575]"

definition al_nakheel :: pystr where
  "al_nakheel = [1575, 1604, 1606, 1582, 1610, 1604]"

definition al_ghadir :: pystr where
  "al_ghadir = [1575, 1604, 1594, 1583, 1610, 1585]"

definition al_qairawan :: pystr where
  "al_qairawan = [1575, 1604, 1602, 1610, 1585, 1608, 1575, 1606]"

definition al_rimal :: pystr where
  "al_rimal = [1575, 1604, 1585, 1605, 1575, 1604]"

record district_info =
  di_delivery_fee :: rat
  di_estimated_time :: pystr

definition COVERED_DISTRICTS :: "(pystr \<times> district_info) list" where
  "COVERED_DISTRICTS =
     [(hayy @ al_narjis, \<lparr>di_delivery_fee = 15, di_estimated_time = ascii ''30-45 '' @ daqiqa\<rparr>),
      (al_narjis, \<lparr>di_delivery_fee = 15, di_estimated_time = ascii ''30-45 '' @ daqiqa\<rparr>),
      (hayy @ al_yasmin, \<lparr>di_delivery_fee = 15, di_estimated_time = ascii ''30-45 '' @ daqiqa\<rparr>),
      (al_yasmin, \<lparr>di_delivery_fee = 15, di_estimated_time = ascii ''30-45 '' @ daqiqa\<rparr>),
      (hayy @ al_malqa, \<lparr>di_delivery_fee = 15, di_estimated_time = ascii ''35-50 '' @ daqiqa\<rparr>),
      (al_malqa, \<lparr>di_delivery_fee = 15, di_estimated_time = ascii ''35-50 '' @ daqiqa\<rparr>),
      (hayy @ al_sahafa, \<lparr>di_delivery_fee = 12, di_estimated_time = ascii ''25-40 '' @ daqiqa\<rparr>),
      (al_sahafa, \<lparr>di_delivery_fee = 12, di_estimated_time = ascii ''25-40 '' @ daqiqa\<rparr>),
      (hayy @ al_aqiq, \<lparr>di_delivery_fee = 15, di_estimated_time = ascii ''30-45 '' @ daqiqa\<rparr>),
      (al_aqiq, \<lparr>di_delivery_fee = 15, di_estimated_time = ascii ''30-45 '' @ daqiqa\<rparr>),
      (hayy @ al_wurud, \<lparr>di_delivery_fee = 10, di_estimated_time = ascii ''20-35 '' @ daqiqa\<rparr>),
      (al_wurud, \<lparr>di_delivery_fee = 10, di_estimated_time = ascii ''20-35 '' @ daqiqa\<rparr>),
      (hayy @ al_rawdah, \<lparr>di_delivery_fee = 12, di_estimated_time = ascii ''25-40 '' @ daqiqa\<rparr>),
      (al_rawdah, \<lparr>di_delivery_fee = 12, di_estimated_time = ascii ''25-40 '' @ daqiqa\<rparr>),
      (hayy @ al_rabwah, \<lparr>di_delivery_fee = 12, di_estimated_time = ascii ''25-40 '' @ daqiqa\<rparr>),
      (al_rabwah, \<lparr>di_delivery_fee = 12, di_estimated_time = ascii ''25-40 '' @ daqiqa\<rparr>),
      (hayy @ al_sulaymaniyah, \<lparr>di_delivery_fee = 10, di_estimated_time = ascii ''20-30 '' @ daqiqa\<rparr>),
      (al_sulaymaniyah, \<lparr>di_delivery_fee = 10, di_estimated_time = ascii ''20-30 '' @ daqiqa\<rparr>),
      (hayy @ al_olaya, \<lparr>di_delivery_fee = 10, di_estimated_time = ascii ''15-25 '' @ daqiqa\<rparr>),
      (al_olaya, \<lparr>di_delivery_fee = 10, di_estimated_time = ascii ''15-25 '' @ daqiqa\<rparr>),
      (hayy @ al_nakheel, \<lparr>di_delivery_fee = 15, di_estimated_time = ascii ''30-45 '' @ daqiqa\<rparr>),
      (al_nakheel, \<lparr>di_delivery_fee = 15, di_estimated_time = ascii ''30-45 '' @ daqiqa\<rparr>),
      (hayy @ al_ghadir, \<lparr>di_delivery_fee = 15, di_estimated_time = ascii ''35-50 '' @ daqiqa\<rparr>),
      (al_ghadir, \<lparr>di_delivery_fee = 15, di_estimated_time = ascii ''35-50 '' @ daqiqa\<rparr>),
      (hayy @ al_qairawan, \<lparr>di_delivery_fee = 18, di_estimated_time = ascii ''40-55 '' @ daqiqa\<rparr>),
      (al_qairawan, \<lparr>di_delivery_fee = 18, di_estimated_time = ascii ''40-55 '' @ daqiqa\<rparr>),
      (hayy @ al_rimal, \<lparr>di_delivery_fee = 18, di_estimated_time = ascii ''40-55 '' @ daqiqa\<rparr>),
      (al_rimal, \<lparr>di_delivery_fee = 18, di_estimated_time = ascii ''40-55 '' @ daqiqa\<rparr>)]"

text \<open>
  The messages of \<open>check_delivery_district\<close>: "we deliver to (district), the fee is
  (fee) and the expected time (time)"; "I did not find (district), do you mean
  (suggestions)?"; "sorry, we do not cover (district) now".
\<close>

datatype coverage_message =
    We_deliver_to pystr rat pystr
  | Did_you_mean pystr "pystr list"
  | We_do_not_cover pystr

record coverage_result =
  covered :: bool
  cr_delivery_fee :: rat
  cr_estimated_time :: pystr
  cr_message_ar :: coverage_message
  cr_suggestions :: "pystr list option"

text \<open>
  \<open>check_delivery_district\<close>: the name is stripped and looked up as a key; a name that
  is no key gets, as suggestions, the first three keys that contain it or that it
  contains.
\<close>

definition check_delivery_district :: "pystr \<Rightarrow> coverage_result" where
  "check_delivery_district d =
     (let district_clean = py_strip d
      in case map_of COVERED_DISTRICTS district_clean of
           Some info \<Rightarrow>
             \<lparr>covered = True, cr_delivery_fee = di_delivery_fee info,
              cr_estimated_time = di_estimated_time info,
              cr_message_ar = We_deliver_to district_clean (di_delivery_fee info)
                                (di_estimated_time info),
              cr_suggestions = None\<rparr>
         | None \<Rightarrow>
             let suggestions = filter (\<lambda>k. py_in district_clean k \<or> py_in k district_clean)
                                 (map fst COVERED_DISTRICTS)
             in if suggestions \<noteq> []
                then \<lparr>covered = False, cr_delivery_fee = 0, cr_estimated_time = [],
                      cr_message_ar = Did_you_mean district_clean (take 3 suggestions),
                      cr_suggestions = Some (take 3 suggestions)\<rparr>
                else \<lparr>covered = False, cr_delivery_fee = 0, cr_estimated_time = [],
                      cr_message_ar = We_do_not_cover district_clean,
                      cr_suggestions = None\<rparr>)"

text \<open>The district names of the table without the prefix, in the table's order.\<close>

definition district_names :: "pystr list" where
  "district_names =
     [al_narjis, al_yasmin, al_malqa, al_sahafa, al_aqiq, al_wurud, al_rawdah, al_rabwah,
      al_sulaymaniyah, al_olaya, al_nakheel, al_ghadir, al_qairawan, al_rimal]"

section \<open>db/repositories/coverage\_repo.py and mcp\_server/tools/coverage.py: the coverage tool\<close>

text \<open>
  A row of the table \<open>covered_areas\<close>. The column \<open>aliases_ar\<close> is an array; an array
  that is NULL matches no name and is the empty list here.
\<close>

record CoveredArea =
  ca_id :: int
  ca_name_ar :: pystr
  ca_name_en :: "pystr option"
  ca_city :: pystr
  ca_aliases_ar :: "pystr list"
  ca_is_active :: bool

text \<open>
  \<open>find_area_by_name\<close>: the first active row whose \<open>name_ar\<close> or \<open>name_en\<close> is the
  name, else the first active row that has the name among its aliases. The table is
  the list of its rows, and \<open>fetchrow\<close> gives the first row of the result.
\<close>

definition find_area_by_name :: "CoveredArea list \<Rightarrow> pystr \<Rightarrow> CoveredArea option" where
  "find_area_by_name covered_areas name =
     (case find (\<lambda>row. ca_is_active row \<and> (ca_name_ar row = name \<or> ca_name_en row = Some name))
             covered_areas of
        Some row \<Rightarrow> Some row
      | None \<Rightarrow>
          find (\<lambda>row. ca_is_active row \<and> name \<in> set (ca_aliases_ar row)) covered_areas)"

text \<open>
  \<open>search_area\<close>: the active rows of which \<open>name_ar\<close>, \<open>name_en\<close> or an alias matches the
  pattern made of the term between two percent signs, ordered by \<open>name_ar\<close>, at most
  five. The operator \<open>ILIKE\<close> (value, then pattern) and the ordering are the database's.
\<close>

definition search_area ::
  "(pystr \<Rightarrow> pystr \<Rightarrow> bool) \<Rightarrow> (CoveredArea list \<Rightarrow> CoveredArea list) \<Rightarrow> CoveredArea list
     \<Rightarrow> pystr \<Rightarrow> CoveredArea list" where
  "search_area ilike order_by_name_ar covered_areas search_term =
     (let pattern = [37] @ search_term @ [37]
      in take 5 (order_by_name_ar
           (filter (\<lambda>row. ca_is_active row
                      \<and> (ilike (ca_name_ar row) pattern
                         \<or> (case ca_name_en row of None \<Rightarrow> False | Some n \<Rightarrow> ilike n pattern)
                         \<or> list_ex (\<lambda>alias. ilike alias pattern) (ca_aliases_ar row)))
              covered_areas)))"

text \<open>
  The second component of the pair \<open>check_coverage\<close> returns: the row found, or the
  dictionary with the key \<open>suggestions\<close>.
\<close>

datatype area_info =
    Area CoveredArea
  | Suggestions "CoveredArea list"

definition check_coverage ::
  "(pystr \<Rightarrow> pystr \<Rightarrow> bool) \<Rightarrow> (CoveredArea list \<Rightarrow> CoveredArea list) \<Rightarrow> CoveredArea list
     \<Rightarrow> pystr \<Rightarrow> bool \<times> area_info option" where
  "check_coverage ilike order_by_name_ar covered_areas area_name =
     (let area_name1 = py_strip area_name
      in case find_area_by_name covered_areas area_name1 of
           Some area \<Rightarrow> (True, Some (Area area))
         | None \<Rightarrow>
             let suggestions = search_area ilike order_by_name_ar covered_areas area_name1
             in if suggestions \<noteq> [] then (False, Some (Suggestions suggestions))
                else (False, None))"

text \<open>
  The messages of \<open>coverage_check\<close>: "yes, we deliver to the area (name)"; "we did not
  find (area name as given), do you mean (names)?"; "sorry, we do not cover the area
  (area name as given) now, you can pick up from the branch".
\<close>

datatype coverage_check_message =
    Yes_we_deliver_to pystr
  | We_did_not_find pystr "pystr list"
  | Sorry_we_do_not_cover pystr

text \<open>The dictionary \<open>coverage_check\<close> returns; a key that is absent is \<open>None\<close>.\<close>

record coverage_check_result =
  cc_is_covered :: bool
  cc_area_id :: "int option"
  cc_area_name_ar :: "pystr option"
  cc_area_name_en :: "pystr option"
  cc_city :: "pystr option"
  cc_suggestions :: "CoveredArea list option"
  cc_message_ar :: coverage_check_message

text \<open>
  \<open>coverage_check\<close>, the tool of the MCP server: the name is normalized by
  \<open>normalize_area_name\<close> and then looked up by \<open>check_coverage\<close>.
\<close>

definition coverage_check ::
  "(pystr \<Rightarrow> pystr \<Rightarrow> bool) \<Rightarrow> (CoveredArea list \<Rightarrow> CoveredArea list) \<Rightarrow> CoveredArea list
     \<Rightarrow> pystr \<Rightarrow> coverage_check_result" where
  "coverage_check ilike order_by_name_ar covered_areas area_name =
     (let normalized = normalize_area_name area_name
      in case check_coverage ilike order_by_name_ar covered_areas normalized of
           (True, Some (Area result)) \<Rightarrow>
             \<lparr>cc_is_covered = True, cc_area_id = Some (ca_id result),
              cc_area_name_ar = Some (ca_name_ar result), cc_area_name_en = ca_name_en result,
              cc_city = Some (ca_city result), cc_suggestions = None,
              cc_message_ar = Yes_we_deliver_to (ca_name_ar result)\<rparr>
         | (_, Some (Suggestions suggestions)) \<Rightarrow>
             \<lparr>cc_is_covered = False, cc_area_id = None, cc_area_name_ar = None,
              cc_area_name_en = None, cc_city = None,
              cc_suggestions = Some (take 3 suggestions),
              cc_message_ar = We_did_not_find area_name (map ca_name_ar (take 3 suggestions))\<rparr>
         | _ \<Rightarrow>
             \<lparr>cc_is_covered = False, cc_area_id = None, cc_area_name_ar = None,
              cc_area_name_en = None, cc_city = None, cc_suggestions = Some [],
              cc_message_ar = Sorry_we_do_not_cover area_name\<rparr>)"

subsection \<open>scripts/seed\_areas.py: the rows of the table\<close>

definition al_malik_fahd :: pystr where
  "al_malik_fahd = [1575, 1604, 1605, 1604, 1603, 32, 1601, 1607, 1583]"

text \<open>
  A row as the seed script inserts it: the city is Riyadh and the row is active by the
  column's default. The id is the one a fresh table assigns.
\<close>

definition seeded_area :: "int \<Rightarrow> pystr \<Rightarrow> string \<Rightarrow> pystr list \<Rightarrow> CoveredArea" where
  "seeded_area i n_ar n_en aliases =
     \<lparr>ca_id = i, ca_name_ar = n_ar, ca_name_en = Some (ascii n_en), ca_city = ascii ''Riyadh'',
      ca_aliases_ar = aliases, ca_is_active = True\<rparr>"

text \<open>
  \<open>COVERED_AREAS\<close>: fifteen districts, each with its name after the prefix "district",
  and as aliases the name alone and the name without the definite article.
\<close>

definition COVERED_AREAS :: "CoveredArea list" where
  "COVERED_AREAS =
     [seeded_area 1 (hayy @ al_narjis) ''Al Narjis''
        [al_narjis, [1606, 1585, 1580, 1587]],
      seeded_area 2 (hayy @ al_yasmin) ''Al Yasmin''
        [al_yasmin, [1610, 1575, 1587, 1605, 1610, 1606]],
      seeded_area 3 (hayy @ al_malqa) ''Al Malqa''
        [al_malqa, [1605, 1604, 1602, 1575]],
      seeded_area 4 (hayy @ al_sahafa) ''Al Sahafa''
        [al_sahafa, [1589, 1581, 1575, 1601, 1577]],
      seeded_area 5 (hayy @ al_aqiq) ''Al Aqiq''
        [al_aqiq, [1593, 1602, 1610, 1602]],
      seeded_area 6 (hayy @ al_wurud) ''Al Wurud''
        [al_wurud, [1608, 1585, 1608, 1583]],
      seeded_area 7 (hayy @ al_rawdah) ''Al Rawdah''
        [al_rawdah, [1585, 1608, 1590, 1577]],
      seeded_area 8 (hayy @ al_rabwah) ''Al Rabwah''
        [al_rabwah, [1585, 1576, 1608, 1577]],
      seeded_area 9 (hayy @ al_sulaymaniyah) ''Al Sulaymaniyah''
        [al_sulaymaniyah, [1587, 1604, 1610, 1605, 1575, 1606, 1610, 1577]],
      seeded_area 10 (hayy @ al_malik_fahd) ''King Fahd District''
        [al_malik_fahd, [1605, 1604, 1603, 32, 1601, 1607, 1583]],
      seeded_area 11 (hayy @ al_olaya) ''Al Olaya''
        [al_olaya, [1593, 1604, 1610, 1575]],
      seeded_area 12 (hayy @ al_nakheel) ''Al Nakheel''
        [al_nakheel, [1606, 1582, 1610, 1604]],
      seeded_area 13 (hayy @ al_ghadir) ''Al Ghadir''
        [al_ghadir, [1594, 1583, 1610, 1585]],
      seeded_area 14 (hayy @ al_qairawan) ''Al Qairawan''
        [al_qairawan, [1602, 1610, 1585, 1608, 1575, 1606]],
      seeded_area 15 (hayy @ al_rimal) ''Al Rimal''
        [al_rimal, [1585, 1605, 1575, 1604]]]"

section \<open>Example data\<close>

definition example_menu :: "pystr \<rightharpoonup> MenuItem" where
  "example_menu =
     [ascii ''b1'' \<mapsto> \<lparr>mi_name_ar = ascii ''burger'', mi_name_en = Some (ascii ''Burger''),
        mi_price = 25, mi_available = Some True\<rparr>,
      ascii ''f2'' \<mapsto> \<lparr>mi_name_ar = ascii ''fries'', mi_name_en = None,
        mi_price = 10, mi_available = None\<rparr>]"

definition burger_line :: "int \<Rightarrow> pystr \<Rightarrow> OrderItem" where
  "burger_line q n =
     \<lparr>item_id = ascii ''b1'', name_ar = ascii ''burger'', name_en = ascii ''Burger'',
      quantity = q, price = 25, line_notes = n, line_total = 25 * of_int q\<rparr>"

definition fries_line :: "int \<Rightarrow> pystr \<Rightarrow> OrderItem" where
  "fries_line q n =
     \<lparr>item_id = ascii ''f2'', name_ar = ascii ''fries'', name_en = [],
      quantity = q, price = 10, line_notes = n, line_total = 10 * of_int q\<rparr>"

definition sid :: pystr where
  "sid = ascii ''default''"

definition example_cart_item :: CartItem where
  "example_cart_item =
     \<lparr>ci_menu_item_id = 1, ci_item_name_ar = ascii ''burger'', ci_quantity = 2,
      ci_unit_price = 25, ci_total_price = 50, ci_special_instructions = None\<rparr>"

definition example_session :: SessionState where
  "example_session =
     \<lparr>ss_state = S4_ORDERING, ss_customer_name = None, ss_customer_phone = None,
      ss_order_type = ascii ''delivery'', ss_cart = [example_cart_item],
      ss_applied_promo_code = None\<rparr>"

text \<open>\<open>str.upper\<close> on ASCII text.\<close>

definition ascii_upper :: "pystr \<Rightarrow> pystr" where
  "ascii_upper s = map (\<lambda>c. if 97 \<le> c \<and> c \<le> 122 then c - 32 else c) s"

definition line_of_500 :: OrderItem where
  "line_of_500 = burger_line 20 []"

definition welcome10_row :: PromoCode where
  "welcome10_row =
     \<lparr>pc_code = ascii ''WELCOME10'', pc_discount_type = ascii ''percentage'',
      pc_discount_value = 10, pc_min_order_amount = 50, pc_max_discount = Some 30,
      pc_usage_limit = None, pc_usage_count = 0, pc_valid_from = None,
      pc_valid_until = None, pc_is_active = True\<rparr>"

definition first20_row :: PromoCode where
  "first20_row =
     \<lparr>pc_code = ascii ''FIRST20'', pc_discount_type = ascii ''percentage'',
      pc_discount_value = 20, pc_min_order_amount = 100, pc_max_discount = Some 50,
      pc_usage_limit = None, pc_usage_count = 0, pc_valid_from = None,
      pc_valid_until = None, pc_is_active = True\<rparr>"

definition inactive_welcome10_row :: PromoCode where
  "inactive_welcome10_row = welcome10_row\<lparr>pc_is_active := False\<rparr>"

text \<open>\<open>int\<close> on a string of ASCII decimal digits.\<close>

definition decimal_int :: "pystr \<Rightarrow> int option" where
  "decimal_int s =
     (if s \<noteq> [] \<and> list_all (\<lambda>c. 48 \<le> c \<and> c \<le> 57) s
      then Some (foldl (\<lambda>a c. 10 * a + int (c - 48)) 0 s) else None)"

definition shawarma_line :: OrderItem where
  "shawarma_line =
     \<lparr>item_id = ascii ''7'', name_ar = ascii ''shawarma'', name_en = [],
      quantity = 2, price = 25, line_notes = [], line_total = 50\<rparr>"

definition empty_database :: database where
  "empty_database = \<lparr>db_orders = [], db_order_items = [], db_next_id = 1\<rparr>"

definition example_tool_state :: tool_state where
  "example_tool_state =
     \<lparr>ts_orders = [sid \<mapsto> [shawarma_line]], ts_confirmed_orders = Map.empty,
      ts_db = empty_database\<rparr>"

definition connection_refused :: store_faults where
  "connection_refused = \<lparr>connect_fails = True, failing_statement = None, commit_fails = False\<rparr>"

definition no_json :: "pystr \<Rightarrow> json_dict option" where
  "no_json c = None"

definition default_order_type_info :: order_type_info where
  "default_order_type_info =
     \<lparr>si_order_type = ascii ''delivery'', si_district = [], si_delivery_fee = 0\<rparr>"

definition checkout_state :: AgentState where
  "checkout_state =
     \<lparr>messages = [], current_agent = Agent_checkout, district = Some (ascii ''Olaya''),
      district_validated = True, delivery_fee = 10, estimated_time = None,
      order_type = ascii ''delivery'', order_confirmed = False, order_id = None,
      handoff_summary_ar = Summary_empty, came_from_checkout = False,
      came_from_order = False\<rparr>"

definition checkout_thread :: "message list" where
  "checkout_thread =
     [HumanMessage (ascii ''change my address''),
      AIMessage (ascii ''Sure. [HANDOFF:location]'')]"

definition quiet_turn :: "order_type_info \<times> message list" where
  "quiet_turn =
     (default_order_type_info,
      [SystemMessage (context_marker @ ascii '' back from checkout]''),
       HumanMessage (ascii ''change my address''),
       AIMessage (ascii ''Which district?'')])"

definition forward_turn :: "order_type_info \<times> message list" where
  "forward_turn =
     (default_order_type_info,
      [HumanMessage (ascii ''Malqa''),
       AIMessage (ascii ''Done. [HANDOFF:order]'')])"

text \<open>
  An answer with the cancel trigger that carries the cart unchanged, as the order agent
  gives it for the next action "cancel" without a cart action; and an intent agent that
  detects an order.
\<close>

text \<open>The built-in \<open>sum\<close> as a loop of float additions from 0, on the carts of the examples.\<close>

definition float_sum :: "rat list \<Rightarrow> rat" where
  "float_sum xs = foldl (\<lambda>acc x. round_double (acc + x)) 0 xs"

definition salad_line :: OrderItem where
  "salad_line =
     \<lparr>item_id = ascii ''s3'', name_ar = ascii ''salad'', name_en = [],
      quantity = 1, price = 33, line_notes = [], line_total = 33\<rparr>"

definition uncapped_row :: PromoCode where
  "uncapped_row = first20_row\<lparr>pc_max_discount := Some 0\<rparr>"

definition cancelling_agent :: "State \<Rightarrow> SessionState \<Rightarrow> AgentResult" where
  "cancelling_agent current_state session =
     \<lparr>session_updates = no_updates\<lparr>upd_cart := Some (ss_cart session)\<rparr>,
      trigger = Some CANCEL\<rparr>"

definition ordering_intent :: "SessionState \<Rightarrow> AgentResult" where
  "ordering_intent session = \<lparr>session_updates = no_updates, trigger = Some INTENT_ORDERING\<rparr>"

lemmas example_defs =
  example_menu_def burger_line_def fries_line_def sid_def ascii_def
  example_cart_item_def example_session_def ascii_upper_def line_of_500_def
  welcome10_row_def first20_row_def inactive_welcome10_row_def
  salad_line_def uncapped_row_def

section \<open>Verified properties\<close>

subsection \<open>Opening hours\<close>

text \<open>
  C6. With opening hour 9 and closing hour 3 the restaurant is open at a time of day
  exactly when its hour is at least 9 or below 3; so 02:59 is open, 03:00 and 08:59
  are closed and 09:00 is open.
\<close>

theorem is_restaurant_open_midnight_wrap:
  "is_restaurant_open default_settings \<lparr>dt_hour = h, dt_minute = m\<rparr> = (h \<ge> 9 \<or> h < 3)
   \<and> is_restaurant_open default_settings \<lparr>dt_hour = 2, dt_minute = 59\<rparr>
   \<and> \<not> is_restaurant_open default_settings \<lparr>dt_hour = 3, dt_minute = 0\<rparr>
   \<and> \<not> is_restaurant_open default_settings \<lparr>dt_hour = 8, dt_minute = 59\<rparr>
   \<and> is_restaurant_open default_settings \<lparr>dt_hour = 9, dt_minute = 0\<rparr>"
  by (simp add: is_restaurant_open_def default_settings_def)

subsection \<open>The cancel trigger\<close>

lemma apply_session_updates_state:
  "ss_state (apply_session_updates session u) = ss_state session"
  by (simp add: apply_session_updates_def Let_def split: option.splits)

lemma apply_session_updates_cart:
  "ss_cart (apply_session_updates session u)
     = (case upd_cart u of None \<Rightarrow> ss_cart session | Some c \<Rightarrow> c)"
  by (simp add: apply_session_updates_def Let_def split: option.splits)

lemma intent_step_state:
  "ss_state (snd (intent_step detect session)) = fst (intent_step detect session)"
  by (simp add: intent_step_def Let_def apply_session_updates_state split: option.splits)

lemma intent_step_elsewhere:
  "ss_state session \<notin> {S0_INIT, S1_INTENT} \<Longrightarrow> intent_step detect session = (ss_state session, session)"
  by (simp add: intent_step_def Let_def)

lemma intent_targets:
  "get_next_state S1_INTENT t = Some n \<Longrightarrow> n \<in> {S2_GREETING, S_COMPLAINT, S_FALLBACK}"
  by (cases t) (simp_all add: get_next_state_def)

lemma intent_step_from_start:
  assumes "ss_state session \<in> {S0_INIT, S1_INTENT}"
  shows "fst (intent_step detect session) \<in> {S1_INTENT, S2_GREETING, S_COMPLAINT, S_FALLBACK}"
proof -
  let ?s0 = "if ss_state session = S0_INIT then session\<lparr>ss_state := S1_INTENT\<rparr> else session"
  from assms have st: "ss_state ?s0 = S1_INTENT" by auto
  show ?thesis
  proof (cases "trigger (detect ?s0)")
    case None
    with st show ?thesis by (simp add: intent_step_def Let_def)
  next
    case (Some t)
    show ?thesis
    proof (cases "get_next_state S1_INTENT t")
      case None
      with Some st show ?thesis by (simp add: intent_step_def Let_def)
    next
      case (Some n)
      with intent_targets[OF Some] \<open>trigger (detect ?s0) = Some t\<close> st show ?thesis
        by (auto simp: intent_step_def Let_def)
    qed
  qed
qed

lemma cancel_table:
  "get_next_state s CANCEL
     = (if s \<in> {S3_LOCATION, S4_ORDERING, S5_CHECKOUT} then Some S0_INIT else None)"
  by (cases s) (simp_all add: get_next_state_def)

lemma handle_message_cancel:
  assumes "trigger (process (fst (intent_step detect session)) (snd (intent_step detect session)))
             = Some CANCEL"
  shows "ss_state (handle_message detect process session)
           = (if fst (intent_step detect session) \<in> {S3_LOCATION, S4_ORDERING, S5_CHECKOUT}
              then S0_INIT else fst (intent_step detect session))
       \<and> ss_cart (handle_message detect process session)
           = (case upd_cart (session_updates
                 (process (fst (intent_step detect session)) (snd (intent_step detect session)))) of
                None \<Rightarrow> ss_cart (snd (intent_step detect session))
              | Some c \<Rightarrow> c)"
  using assms intent_step_state[of detect session]
  by (simp add: handle_message_def handle_message_result_def Let_def cancel_table
        apply_session_updates_state apply_session_updates_cart split_beta)

text \<open>
  C3 (as the code has it). In the table the cancel trigger is a valid transition
  exactly in the states LOCATION, ORDERING and CHECKOUT, and there its target is INIT.
  In one turn of \<open>handle_message\<close> whose agent answers with the cancel trigger: the
  agent that answers is the one of the session's state, except that a session in INIT
  or INTENT is first moved by the intent step to INTENT, GREETING, COMPLAINT or
  FALLBACK; from LOCATION, ORDERING and CHECKOUT the session ends in INIT, and from any
  other state it ends in the state whose agent answered. The cart is not emptied: it is
  the cart the agent's session updates carry, or the cart before the agent's answer
  when they carry none.
\<close>

theorem cancel_only_from_location_ordering_checkout:
  fixes detect :: "SessionState \<Rightarrow> AgentResult"
    and process :: "State \<Rightarrow> SessionState \<Rightarrow> AgentResult" and session :: SessionState
  defines "current_state \<equiv> fst (intent_step detect session)"
  defines "session1 \<equiv> snd (intent_step detect session)"
  shows "get_next_state s CANCEL
           = (if s \<in> {S3_LOCATION, S4_ORDERING, S5_CHECKOUT} then Some S0_INIT else None)
       \<and> is_valid_transition s CANCEL = (s \<in> {S3_LOCATION, S4_ORDERING, S5_CHECKOUT})
       \<and> (ss_state session \<notin> {S0_INIT, S1_INTENT} \<longrightarrow>
            current_state = ss_state session \<and> session1 = session)
       \<and> (ss_state session \<in> {S0_INIT, S1_INTENT} \<longrightarrow>
            current_state \<in> {S1_INTENT, S2_GREETING, S_COMPLAINT, S_FALLBACK})
       \<and> (trigger (process current_state session1) = Some CANCEL \<longrightarrow>
            ss_state (handle_message detect process session)
              = (if current_state \<in> {S3_LOCATION, S4_ORDERING, S5_CHECKOUT}
                 then S0_INIT else current_state)
            \<and> ss_cart (handle_message detect process session)
              = (case upd_cart (session_updates (process current_state session1)) of
                   None \<Rightarrow> ss_cart session1
                 | Some c \<Rightarrow> c))"
proof -
  have 1: "is_valid_transition s CANCEL = (s \<in> {S3_LOCATION, S4_ORDERING, S5_CHECKOUT})"
    by (simp add: is_valid_transition_def cancel_table)
  have 2: "ss_state session \<notin> {S0_INIT, S1_INTENT} \<Longrightarrow>
      current_state = ss_state session \<and> session1 = session"
    by (simp add: current_state_def session1_def intent_step_elsewhere)
  have 3: "ss_state session \<in> {S0_INIT, S1_INTENT} \<Longrightarrow>
      current_state \<in> {S1_INTENT, S2_GREETING, S_COMPLAINT, S_FALLBACK}"
    unfolding current_state_def by (rule intent_step_from_start)
  have 4: "trigger (process current_state session1) = Some CANCEL \<Longrightarrow>
      ss_state (handle_message detect process session)
              = (if current_state \<in> {S3_LOCATION, S4_ORDERING, S5_CHECKOUT}
                 then S0_INIT else current_state)
      \<and> ss_cart (handle_message detect process session)
              = (case upd_cart (session_updates (process current_state session1)) of
                   None \<Rightarrow> ss_cart session1
                 | Some c \<Rightarrow> c)"
    unfolding current_state_def session1_def by (rule handle_message_cancel)
  from cancel_table[of s] 1 2 3 4 show ?thesis by blast
qed

lemma example_turns:
  "intent_step ordering_intent example_session = (S4_ORDERING, example_session)"
  "intent_step ordering_intent (example_session\<lparr>ss_state := S2_GREETING\<rparr>)
     = (S2_GREETING, example_session\<lparr>ss_state := S2_GREETING\<rparr>)"
  "intent_step ordering_intent (example_session\<lparr>ss_state := S0_INIT\<rparr>)
     = (S2_GREETING, example_session\<lparr>ss_state := S2_GREETING\<rparr>)"
  "trigger (cancelling_agent cs s) = Some CANCEL"
  "upd_cart (session_updates (cancelling_agent cs s)) = Some (ss_cart s)"
  by (simp_all add: intent_step_def Let_def example_session_def ordering_intent_def
        cancelling_agent_def no_updates_def get_next_state_def apply_session_updates_def)

theorem cancel_only_from_location_ordering_checkout_witness:
  "ss_state (handle_message ordering_intent cancelling_agent example_session) = S0_INIT
   \<and> ss_cart (handle_message ordering_intent cancelling_agent example_session)
       = ss_cart example_session
   \<and> ss_state (handle_message ordering_intent cancelling_agent
        (example_session\<lparr>ss_state := S2_GREETING\<rparr>)) = S2_GREETING
   \<and> ss_state (handle_message ordering_intent cancelling_agent
        (example_session\<lparr>ss_state := S0_INIT\<rparr>)) = S2_GREETING"
proof -
  note t = cancel_only_from_location_ordering_checkout[where detect = ordering_intent
      and process = cancelling_agent, THEN conjunct2, THEN conjunct2, THEN conjunct2,
      THEN conjunct2, THEN mp, OF example_turns(4)]
  from t[of example_session]
  have 1: "ss_state (handle_message ordering_intent cancelling_agent example_session) = S0_INIT
     \<and> ss_cart (handle_message ordering_intent cancelling_agent example_session)
       = ss_cart example_session"
    by (simp add: example_turns)
  from t[of "example_session\<lparr>ss_state := S2_GREETING\<rparr>"]
  have 2: "ss_state (handle_message ordering_intent cancelling_agent
        (example_session\<lparr>ss_state := S2_GREETING\<rparr>)) = S2_GREETING"
    by (simp add: example_turns)
  from t[of "example_session\<lparr>ss_state := S0_INIT\<rparr>"]
  have 3: "ss_state (handle_message ordering_intent cancelling_agent
        (example_session\<lparr>ss_state := S0_INIT\<rparr>)) = S2_GREETING"
    by (simp add: example_turns)
  from 1 2 3 show ?thesis by blast
qed

text \<open>
  C3 as stated fails: GREETING is not FINALIZED and has no cancel transition, so a
  cancel answered there leaves the session in GREETING; and a cancel answered by the
  order agent reaches INIT with the cart still holding its line.
\<close>

theorem cancel_counterexample:
  "get_next_state S2_GREETING CANCEL = None
   \<and> \<not> is_valid_transition S2_GREETING CANCEL
   \<and> ss_state (handle_message ordering_intent cancelling_agent
        (example_session\<lparr>ss_state := S2_GREETING\<rparr>)) = S2_GREETING
   \<and> ss_state (handle_message ordering_intent cancelling_agent example_session) = S0_INIT
   \<and> ss_cart (handle_message ordering_intent cancelling_agent example_session)
       = [example_cart_item]"
  by (simp add: get_next_state_def is_valid_transition_def handle_message_def
        handle_message_result_def intent_step_def apply_session_updates_def no_updates_def
        cancelling_agent_def ordering_intent_def example_session_def Let_def)

subsection \<open>The cart tools\<close>






text \<open>
  C8 (the code at a quantity outside 1..99). \<open>validate_quantity\<close> refuses 100, but
  neither \<open>add_to_order\<close> nor \<open>update_order_item\<close> calls it: both succeed and store a
  line of quantity 100.
\<close>

theorem quantity_100_is_accepted:
  "validate_quantity 100 = (False, Some Quantity_above_99)
   \<and> add_to_order example_menu (ascii ''b1'') 100 [] sid Map.empty
       = (Add_ok (burger_line 100 []) 2500 100 (Item_added 100 (ascii ''burger'') [] 2500),
          [sid \<mapsto> [burger_line 100 []]])
   \<and> update_order_item (ascii ''b1'') (Some 100) None sid [sid \<mapsto> [burger_line 1 []]]
       = (Inr (Update_ok (ascii ''updated'') (Quantity_updated 100 (ascii ''burger''))),
          [sid \<mapsto> [burger_line 100 []]])"
  by (simp add: validate_quantity_def add_to_order_def update_order_item_def example_defs
        get_session_order_def set_session_order_def Let_def)

text \<open>
  C10 (the code where removal and notes come together, and where neither is given).
  With quantity 0 and a notes value the line is popped and the notes are then written
  at the same index: on a one-line cart this is an IndexError after the line is gone,
  on a two-line cart the notes of the other item are overwritten. With neither
  argument the result variable is unbound when it is logged.
\<close>

theorem update_order_item_removal_with_notes:
  "update_order_item (ascii ''b1'') (Some 0) (Some (ascii ''x'')) sid [sid \<mapsto> [burger_line 1 []]]
       = (Inl IndexError, [sid \<mapsto> []])
   \<and> update_order_item (ascii ''b1'') (Some 0) (Some (ascii ''x'')) sid
         [sid \<mapsto> [burger_line 1 [], fries_line 2 []]]
       = (Inr (Update_ok (ascii ''updated'') Notes_updated),
          [sid \<mapsto> [fries_line 2 (ascii ''x'')]])
   \<and> update_order_item (ascii ''b1'') None None sid [sid \<mapsto> [burger_line 1 []]]
       = (Inl UnboundLocalError, [sid \<mapsto> [burger_line 1 []]])"
  by (simp add: update_order_item_def example_defs pop_at_def
        get_session_order_def set_session_order_def Let_def)

subsection \<open>Promo codes\<close>

lemma floor_rat_numeral:
  "\<lfloor>(numeral a :: rat) / numeral b\<rfloor> = numeral a div numeral b"
  using floor_divide_of_int_eq[of "numeral a" "numeral b", where ?'a = rat] by simp

lemmas round_double_eval =
  round_double_def float_exponent_def binade_up.simps binade_down.simps round_half_even_def
  floor_rat_numeral float_0_10_def float_0_20_def Let_def

lemma round_double_values:
  "round_double (500 * float_0_10) = 50"
  "round_double (500 * float_0_20) = 100"
  "round_double (33 * float_0_10) = 7430939385161319 / 2251799813685248"
  "round_double 33 = 33" "round_double 50 = 50" "round_double 470 = 470"
  "round_double 500 = 500" "round_double 515 = 515"
  "round_double (66878454466451865 / 2251799813685248) = 8359806808306483 / 281474976710656"
  by (simp_all add: round_double_eval)

lemma float_sum_single:
  "float_sum [33] = 33" "float_sum [50] = 50" "float_sum [500] = 500"
  by (simp_all add: float_sum_def round_double_values)

lemma promo_codes_distinct:
  "ascii ''FIRST20'' \<noteq> ascii ''WELCOME10''"
  "ascii ''FREE15'' \<noteq> ascii ''WELCOME10''"
  "ascii ''FREE15'' \<noteq> ascii ''FIRST20''"
  by (simp_all add: ascii_def)

lemma calculate_total_empty_cart:
  assumes "get_session_order orders session_id = []"
  shows "calculate_total fsum upper orders session_id fee promo_code = Total_cart_empty"
  using assms by (simp add: calculate_total_def)

lemma calculate_total_welcome10:
  assumes "get_session_order orders session_id \<noteq> []" and "code \<noteq> []"
    and "upper code = ascii ''WELCOME10''"
  shows "\<exists>r. calculate_total fsum upper orders session_id fee (Some code) = Total_ok r
           \<and> t_discount r
              = min (round_double
                       (fsum (map line_total (get_session_order orders session_id)) * float_0_10))
                    30"
  using assms by (simp add: calculate_total_def Let_def min_def)

lemma calculate_total_first20:
  assumes "get_session_order orders session_id \<noteq> []" and "code \<noteq> []"
    and "upper code = ascii ''FIRST20''"
    and "fsum (map line_total (get_session_order orders session_id)) \<ge> 100"
  shows "\<exists>r. calculate_total fsum upper orders session_id fee (Some code) = Total_ok r
           \<and> t_discount r
              = min (round_double
                       (fsum (map line_total (get_session_order orders session_id)) * float_0_20))
                    50"
  using assms by (simp add: calculate_total_def Let_def min_def promo_codes_distinct)

lemma calculate_total_first20_below_minimum:
  assumes "get_session_order orders session_id \<noteq> []" and "code \<noteq> []"
    and "upper code = ascii ''FIRST20''"
    and "fsum (map line_total (get_session_order orders session_id)) < 100"
  shows "\<exists>r. calculate_total fsum upper orders session_id fee (Some code) = Total_ok r
           \<and> t_discount r = 0 \<and> \<not> t_promo_applied r
           \<and> last (t_breakdown_ar r) = Promo_line Minimum_order_100"
  using assms by (simp add: calculate_total_def Let_def promo_codes_distinct)

lemma calculate_total_on_500:
  assumes "get_session_order orders session_id \<noteq> []" and "code \<noteq> []"
    and "fsum (map line_total (get_session_order orders session_id)) = 500"
  shows "(upper code = ascii ''WELCOME10'' \<longrightarrow>
            (\<exists>r. calculate_total fsum upper orders session_id fee (Some code) = Total_ok r
                 \<and> t_discount r = 30))
       \<and> (upper code = ascii ''FIRST20'' \<longrightarrow>
            (\<exists>r. calculate_total fsum upper orders session_id fee (Some code) = Total_ok r
                 \<and> t_discount r = 50))"
  using calculate_total_welcome10[OF assms(1,2), of upper fsum fee]
    calculate_total_first20[OF assms(1,2), of upper fsum fee]
  by (simp add: assms(3) round_double_values)

lemma validate_promo_percentage:
  assumes "validate_promo upper promo_codes now code amount = (True, d, msg)"
    and "get_promo_by_code upper promo_codes code = Some promo"
    and "pc_discount_type promo = ascii ''percentage''"
  shows "d = min (case pc_max_discount promo of
                    None \<Rightarrow> amount * pc_discount_value promo / 100
                  | Some max_discount \<Rightarrow>
                      if max_discount = 0 then amount * pc_discount_value promo / 100
                      else min (amount * pc_discount_value promo / 100) max_discount)
                 amount"
  using assms by (simp add: validate_promo_def Let_def split: if_splits option.splits)

text \<open>
  C4 (as the code has it). \<open>calculate_total\<close> fails on an empty cart, whatever the
  code. On a non-empty cart with a non-empty code, \<open>subtotal\<close> being the float sum of
  the line totals: the code WELCOME10 (10 percent, at most 30) gets the discount
  min(subtotal * 0.10, 30), the product being the float product; the code FIRST20
  (20 percent, at most 50) gets min(subtotal * 0.20, 50) when the subtotal reaches its
  minimum order of 100, and below 100 the discount 0, \<open>promo_applied\<close> false and the
  minimum-order text as last line of \<open>breakdown_ar\<close>; on a subtotal of 500 the two
  discounts are 30 and 50. \<open>validate_promo\<close>, when it accepts a percentage code on an
  amount, returns min(amount * pct / 100, max_discount) for a maximum discount that
  is set and not zero, and amount * pct / 100 for one that is unset or zero, in both
  cases capped at the amount.
\<close>

theorem percentage_promo_clamp:
  fixes orders :: orders and session_id code :: pystr and fsum :: "rat list \<Rightarrow> rat"
    and upper :: "pystr \<Rightarrow> pystr" and fee :: rat
  defines "cart \<equiv> get_session_order orders session_id"
  defines "subtotal \<equiv> fsum (map line_total (get_session_order orders session_id))"
  defines "result \<equiv> calculate_total fsum upper orders session_id fee (Some code)"
  shows "(cart = [] \<longrightarrow>
            calculate_total fsum upper orders session_id fee promo_code = Total_cart_empty)
       \<and> (cart \<noteq> [] \<and> code \<noteq> [] \<and> upper code = ascii ''WELCOME10'' \<longrightarrow>
            (\<exists>r. result = Total_ok r
                 \<and> t_discount r = min (round_double (subtotal * float_0_10)) 30))
       \<and> (cart \<noteq> [] \<and> code \<noteq> [] \<and> upper code = ascii ''FIRST20'' \<and> subtotal \<ge> 100 \<longrightarrow>
            (\<exists>r. result = Total_ok r
                 \<and> t_discount r = min (round_double (subtotal * float_0_20)) 50))
       \<and> (cart \<noteq> [] \<and> code \<noteq> [] \<and> upper code = ascii ''FIRST20'' \<and> subtotal < 100 \<longrightarrow>
            (\<exists>r. result = Total_ok r \<and> t_discount r = 0 \<and> \<not> t_promo_applied r
                 \<and> last (t_breakdown_ar r) = Promo_line Minimum_order_100))
       \<and> (cart \<noteq> [] \<and> code \<noteq> [] \<and> subtotal = 500 \<longrightarrow>
            (upper code = ascii ''WELCOME10'' \<longrightarrow> (\<exists>r. result = Total_ok r \<and> t_discount r = 30))
            \<and> (upper code = ascii ''FIRST20'' \<longrightarrow> (\<exists>r. result = Total_ok r \<and> t_discount r = 50)))
       \<and> (validate_promo upper promo_codes now code amount = (True, d, msg)
            \<and> get_promo_by_code upper promo_codes code = Some promo
            \<and> pc_discount_type promo = ascii ''percentage'' \<longrightarrow>
            d = min (case pc_max_discount promo of
                       None \<Rightarrow> amount * pc_discount_value promo / 100
                     | Some max_discount \<Rightarrow>
                         if max_discount = 0 then amount * pc_discount_value promo / 100
                         else min (amount * pc_discount_value promo / 100) max_discount)
                    amount)"
proof -
  have 1: "cart = [] \<longrightarrow>
      calculate_total fsum upper orders session_id fee promo_code = Total_cart_empty"
    unfolding cart_def using calculate_total_empty_cart by blast
  have 2: "cart \<noteq> [] \<and> code \<noteq> [] \<and> upper code = ascii ''WELCOME10'' \<longrightarrow>
      (\<exists>r. result = Total_ok r \<and> t_discount r = min (round_double (subtotal * float_0_10)) 30)"
    unfolding cart_def subtotal_def result_def using calculate_total_welcome10 by blast
  have 3: "cart \<noteq> [] \<and> code \<noteq> [] \<and> upper code = ascii ''FIRST20'' \<and> subtotal \<ge> 100 \<longrightarrow>
      (\<exists>r. result = Total_ok r \<and> t_discount r = min (round_double (subtotal * float_0_20)) 50)"
    unfolding cart_def subtotal_def result_def using calculate_total_first20 by blast
  have 4: "cart \<noteq> [] \<and> code \<noteq> [] \<and> upper code = ascii ''FIRST20'' \<and> subtotal < 100 \<longrightarrow>
      (\<exists>r. result = Total_ok r \<and> t_discount r = 0 \<and> \<not> t_promo_applied r
           \<and> last (t_breakdown_ar r) = Promo_line Minimum_order_100)"
    unfolding cart_def subtotal_def result_def
    using calculate_total_first20_below_minimum by blast
  have 5: "cart \<noteq> [] \<and> code \<noteq> [] \<and> subtotal = 500 \<longrightarrow>
      (upper code = ascii ''WELCOME10'' \<longrightarrow> (\<exists>r. result = Total_ok r \<and> t_discount r = 30))
      \<and> (upper code = ascii ''FIRST20'' \<longrightarrow> (\<exists>r. result = Total_ok r \<and> t_discount r = 50))"
    unfolding cart_def subtotal_def result_def using calculate_total_on_500 by blast
  have 6: "validate_promo upper promo_codes now code amount = (True, d, msg)
            \<and> get_promo_by_code upper promo_codes code = Some promo
            \<and> pc_discount_type promo = ascii ''percentage'' \<longrightarrow>
            d = min (case pc_max_discount promo of
                       None \<Rightarrow> amount * pc_discount_value promo / 100
                     | Some max_discount \<Rightarrow>
                         if max_discount = 0 then amount * pc_discount_value promo / 100
                         else min (amount * pc_discount_value promo / 100) max_discount)
                    amount"
    using validate_promo_percentage by blast
  from 1 2 3 4 5 6 show ?thesis by blast
qed

lemma example_cart_500:
  "get_session_order [sid \<mapsto> [line_of_500]] sid \<noteq> []"
  "float_sum (map line_total (get_session_order [sid \<mapsto> [line_of_500]] sid)) = 500"
  by (simp_all add: get_session_order_def line_of_500_def burger_line_def float_sum_single)

lemma example_cart_50:
  "get_session_order [sid \<mapsto> [burger_line 2 []]] sid \<noteq> []"
  "float_sum (map line_total (get_session_order [sid \<mapsto> [burger_line 2 []]] sid)) = 50"
  by (simp_all add: get_session_order_def burger_line_def float_sum_single)

lemma example_upper:
  "ascii_upper (ascii ''welcome10'') = ascii ''WELCOME10''"
  "ascii_upper (ascii ''First20'') = ascii ''FIRST20''"
  "ascii ''welcome10'' \<noteq> []" "ascii ''First20'' \<noteq> []"
  by (simp_all add: ascii_upper_def ascii_def)

lemma example_validate_first20:
  "validate_promo ascii_upper [welcome10_row, first20_row] 0 (ascii ''First20'') 500
       = (True, 50, Promo_discount_applied 50)"
  "get_promo_by_code ascii_upper [welcome10_row, first20_row] (ascii ''First20'')
       = Some first20_row"
  "pc_discount_type first20_row = ascii ''percentage''"
  "pc_max_discount first20_row = Some 50"
  "pc_discount_value first20_row = 20"
  by (simp_all add: validate_promo_def get_promo_by_code_def welcome10_row_def first20_row_def
        ascii_upper_def ascii_def)

lemma example_validate_uncapped:
  "validate_promo ascii_upper [uncapped_row] 0 (ascii ''First20'') 500
       = (True, 100, Promo_discount_applied 100)"
  "get_promo_by_code ascii_upper [uncapped_row] (ascii ''First20'') = Some uncapped_row"
  "pc_discount_type uncapped_row = ascii ''percentage''"
  "pc_max_discount uncapped_row = Some 0"
  "pc_discount_value uncapped_row = 20"
  by (simp_all add: validate_promo_def get_promo_by_code_def uncapped_row_def first20_row_def
        ascii_upper_def ascii_def)

text \<open>
  With no cart the tool fails. On a cart of 500 the 10 percent code capped at 30 gives
  30 and the 20 percent code capped at 50 gives 50, the float products being 50 and
  100; on a cart of 50 the 20 percent code gives 0 and the minimum-order text. In
  \<open>validate_promo\<close> on 500, the 20 percent row capped at 50 gives 50, and the same row
  with the maximum discount 0 gives 100.
\<close>

theorem percentage_promo_clamp_witness:
  "calculate_total float_sum ascii_upper Map.empty sid 15 (Some (ascii ''First20''))
     = Total_cart_empty
   \<and> (\<exists>r. calculate_total float_sum ascii_upper [sid \<mapsto> [line_of_500]] sid 15
            (Some (ascii ''welcome10'')) = Total_ok r
          \<and> t_discount r = min (round_double (500 * float_0_10)) 30 \<and> t_discount r = 30)
   \<and> (\<exists>r. calculate_total float_sum ascii_upper [sid \<mapsto> [line_of_500]] sid 15
            (Some (ascii ''First20'')) = Total_ok r
          \<and> t_discount r = min (round_double (500 * float_0_20)) 50 \<and> t_discount r = 50)
   \<and> (\<exists>r. calculate_total float_sum ascii_upper [sid \<mapsto> [burger_line 2 []]] sid 15
            (Some (ascii ''First20'')) = Total_ok r
          \<and> t_discount r = 0 \<and> \<not> t_promo_applied r
          \<and> last (t_breakdown_ar r) = Promo_line Minimum_order_100)
   \<and> fst (snd (validate_promo ascii_upper [welcome10_row, first20_row] 0 (ascii ''First20'') 500))
       = min (min (500 * 20 / 100) 50) 500
   \<and> fst (snd (validate_promo ascii_upper [uncapped_row] 0 (ascii ''First20'') 500))
       = min (500 * 20 / 100) 500"
proof -
  note e = percentage_promo_clamp[where fsum = float_sum and upper = ascii_upper
         and orders = Map.empty and session_id = sid and fee = 15
         and promo_code = "Some (ascii ''First20'')"]
  note a = percentage_promo_clamp[where fsum = float_sum and upper = ascii_upper
         and orders = "[sid \<mapsto> [line_of_500]]" and session_id = sid and fee = 15
         and code = "ascii ''welcome10''"]
  note b = percentage_promo_clamp[where fsum = float_sum and upper = ascii_upper
         and orders = "[sid \<mapsto> [line_of_500]]" and session_id = sid and fee = 15
         and code = "ascii ''First20''"
         and promo_codes = "[welcome10_row, first20_row]" and now = 0 and amount = 500
         and d = 50 and msg = "Promo_discount_applied 50" and promo = first20_row]
  note c = percentage_promo_clamp[where fsum = float_sum and upper = ascii_upper
         and orders = "[sid \<mapsto> [burger_line 2 []]]" and session_id = sid and fee = 15
         and code = "ascii ''First20''"
         and promo_codes = "[uncapped_row]" and now = 0 and amount = 500
         and d = 100 and msg = "Promo_discount_applied 100" and promo = uncapped_row]
  from e have 0: "calculate_total float_sum ascii_upper Map.empty sid 15
       (Some (ascii ''First20'')) = Total_cart_empty"
    by (simp add: get_session_order_def)
  from a have 1: "\<exists>r. calculate_total float_sum ascii_upper [sid \<mapsto> [line_of_500]] sid 15
       (Some (ascii ''welcome10'')) = Total_ok r
       \<and> t_discount r = min (round_double (500 * float_0_10)) 30 \<and> t_discount r = 30"
    by (simp add: example_cart_500 example_upper round_double_values)
  from b have 2: "\<exists>r. calculate_total float_sum ascii_upper [sid \<mapsto> [line_of_500]] sid 15
       (Some (ascii ''First20'')) = Total_ok r
       \<and> t_discount r = min (round_double (500 * float_0_20)) 50 \<and> t_discount r = 50"
    by (simp add: example_cart_500 example_upper round_double_values)
  from c have 3: "\<exists>r. calculate_total float_sum ascii_upper [sid \<mapsto> [burger_line 2 []]] sid 15
       (Some (ascii ''First20'')) = Total_ok r
       \<and> t_discount r = 0 \<and> \<not> t_promo_applied r
       \<and> last (t_breakdown_ar r) = Promo_line Minimum_order_100"
    by (simp add: example_cart_50 example_upper)
  from b have "(50::rat) = min (min (500 * pc_discount_value first20_row / 100) 50) 500"
    by (simp add: example_validate_first20 example_upper)
  then have 4: "fst (snd (validate_promo ascii_upper [welcome10_row, first20_row] 0
       (ascii ''First20'') 500)) = min (min (500 * 20 / 100) 50) 500"
    by (simp add: example_validate_first20)
  from c have "(100::rat) = min (500 * pc_discount_value uncapped_row / 100) 500"
    by (simp add: example_validate_uncapped example_upper)
  then have 5: "fst (snd (validate_promo ascii_upper [uncapped_row] 0
       (ascii ''First20'') 500)) = min (500 * 20 / 100) 500"
    by (simp add: example_validate_uncapped)
  from 0 1 2 3 4 5 show ?thesis by blast
qed

text \<open>
  C4 as stated fails in two ways. Below the minimum order: on a cart of 50 the
  20 percent code FIRST20 gives the discount 0 and the minimum-order text, not
  min(50 * 20 / 100, 50), which is 10. In floats: on a cart of 33 the 10 percent code
  WELCOME10 gives the float product 3.3000000000000003, not 33 * 10 / 100.
\<close>

theorem percentage_promo_counterexample:
  "calculate_total float_sum ascii_upper [sid \<mapsto> [burger_line 2 []]] sid 0
       (Some (ascii ''FIRST20''))
     = Total_ok \<lparr>t_subtotal = 50, t_delivery_fee = 0, t_discount = 0, t_total = 50,
         t_breakdown_ar = [Subtotal_line 50, Total_line 50, Promo_line Minimum_order_100],
         t_promo_applied = False\<rparr>
   \<and> min (50 * 20 / 100) 50 = (10::rat)
   \<and> calculate_total float_sum ascii_upper [sid \<mapsto> [salad_line]] sid 0
       (Some (ascii ''WELCOME10''))
     = Total_ok \<lparr>t_subtotal = 33, t_delivery_fee = 0,
         t_discount = 7430939385161319 / 2251799813685248,
         t_total = 8359806808306483 / 281474976710656,
         t_breakdown_ar =
           [Subtotal_line 33, Discount_line (7430939385161319 / 2251799813685248),
            Total_line (8359806808306483 / 281474976710656),
            Promo_line (Percent10_applied (7430939385161319 / 2251799813685248))],
         t_promo_applied = True\<rparr>
   \<and> (7430939385161319 / 2251799813685248 :: rat) \<noteq> 33 * 10 / 100"
  by (simp add: calculate_total_def get_session_order_def burger_line_def salad_line_def sid_def
        ascii_def ascii_upper_def Let_def float_sum_single round_double_values)

lemma calculate_total_unknown_code:
  assumes "get_session_order orders session_id \<noteq> []" and "code \<noteq> []"
    and "upper code \<noteq> ascii ''WELCOME10''" and "upper code \<noteq> ascii ''FIRST20''"
    and "upper code \<noteq> ascii ''FREE15''"
  shows "\<exists>r. calculate_total fsum upper orders session_id fee (Some code) = Total_ok r
           \<and> t_discount r = 0 \<and> \<not> t_promo_applied r
           \<and> last (t_breakdown_ar r) = Promo_line Code_not_correct
           \<and> t_total r = round_double (round_double (t_subtotal r + fee) - 0)"
  using assms by (simp add: calculate_total_def Let_def)

lemma validate_promo_rejects:
  assumes "case get_promo_by_code upper promo_codes code of
             None \<Rightarrow> True
           | Some promo \<Rightarrow>
               \<not> pc_is_active promo
               \<or> (\<exists>l. pc_usage_limit promo = Some l \<and> l \<noteq> 0 \<and> pc_usage_count promo \<ge> l)
               \<or> (\<exists>t. pc_valid_until promo = Some t \<and> now > t)"
  shows "\<exists>m. validate_promo upper promo_codes now code subtotal = (False, 0, m)
           \<and> m \<in> {Promo_not_correct, Promo_not_active, Promo_uses_exhausted,
                   Promo_not_started, Promo_expired}"
proof (cases "get_promo_by_code upper promo_codes code")
  case None
  then show ?thesis by (simp add: validate_promo_def)
next
  case (Some promo)
  with assms show ?thesis
    by (auto simp: validate_promo_def split: option.splits)
qed

lemma compute_totals_rejects:
  assumes "code \<noteq> []"
    and "validate_promo upper promo_codes now code (sum_list (map ci_total_price cart_items))
           = (False, 0, m)"
  shows "c_discount (compute_totals upper promo_codes now dfee cart_items (Some code) otype) = 0
       \<and> c_promo_message_ar (compute_totals upper promo_codes now dfee cart_items (Some code) otype)
           = Some m"
  using assms by (simp add: compute_totals_def Let_def)

text \<open>
  C5 (as the code has it). For a non-empty code: \<open>calculate_total\<close> on a non-empty cart
  rejects every code that is not one of its three built-in codes: the discount is 0,
  \<open>promo_applied\<close> is false, the total is the float sum of subtotal and delivery fee
  less the zero discount, and the last line of \<open>breakdown_ar\<close> is the text "the discount code is not correct". The state of a
  code in the table \<open>promo_codes\<close> is read by \<open>validate_promo\<close>: a code that is
  unknown, inactive, at or over a non-zero usage limit, or past its \<open>valid_until\<close> is
  refused with discount 0 and one of the rejection texts, and \<open>compute_totals\<close> then
  reports discount 0 and that text as \<open>promo_message_ar\<close>.
\<close>

theorem invalid_promo_rejected:
  fixes orders :: orders
  assumes code: "code \<noteq> []"
  shows "(get_session_order orders session_id \<noteq> []
          \<and> upper code \<noteq> ascii ''WELCOME10'' \<and> upper code \<noteq> ascii ''FIRST20''
          \<and> upper code \<noteq> ascii ''FREE15'' \<longrightarrow>
            (\<exists>r. calculate_total fsum upper orders session_id fee (Some code) = Total_ok r
                 \<and> t_discount r = 0 \<and> \<not> t_promo_applied r
                 \<and> last (t_breakdown_ar r) = Promo_line Code_not_correct
                 \<and> t_total r = round_double (round_double (t_subtotal r + fee) - 0)))
       \<and> ((case get_promo_by_code upper promo_codes code of
               None \<Rightarrow> True
             | Some promo \<Rightarrow>
                 \<not> pc_is_active promo
                 \<or> (\<exists>l. pc_usage_limit promo = Some l \<and> l \<noteq> 0 \<and> pc_usage_count promo \<ge> l)
                 \<or> (\<exists>t. pc_valid_until promo = Some t \<and> now > t)) \<longrightarrow>
            (\<exists>m. validate_promo upper promo_codes now code (sum_list (map ci_total_price cart_items))
                   = (False, 0, m)
                 \<and> m \<in> {Promo_not_correct, Promo_not_active, Promo_uses_exhausted,
                         Promo_not_started, Promo_expired}
                 \<and> c_discount (compute_totals upper promo_codes now dfee cart_items (Some code) otype)
                     = 0
                 \<and> c_promo_message_ar
                      (compute_totals upper promo_codes now dfee cart_items (Some code) otype)
                     = Some m))"
proof (intro conjI impI)
  assume "get_session_order orders session_id \<noteq> []
          \<and> upper code \<noteq> ascii ''WELCOME10'' \<and> upper code \<noteq> ascii ''FIRST20''
          \<and> upper code \<noteq> ascii ''FREE15''"
  then show "\<exists>r. calculate_total fsum upper orders session_id fee (Some code) = Total_ok r
                 \<and> t_discount r = 0 \<and> \<not> t_promo_applied r
                 \<and> last (t_breakdown_ar r) = Promo_line Code_not_correct
                 \<and> t_total r = round_double (round_double (t_subtotal r + fee) - 0)"
    using calculate_total_unknown_code[OF _ code] by blast
next
  assume "case get_promo_by_code upper promo_codes code of
               None \<Rightarrow> True
             | Some promo \<Rightarrow>
                 \<not> pc_is_active promo
                 \<or> (\<exists>l. pc_usage_limit promo = Some l \<and> l \<noteq> 0 \<and> pc_usage_count promo \<ge> l)
                 \<or> (\<exists>t. pc_valid_until promo = Some t \<and> now > t)"
  from validate_promo_rejects[OF this, of "sum_list (map ci_total_price cart_items)"]
  obtain m where m: "validate_promo upper promo_codes now code
        (sum_list (map ci_total_price cart_items)) = (False, 0, m)"
      "m \<in> {Promo_not_correct, Promo_not_active, Promo_uses_exhausted,
             Promo_not_started, Promo_expired}"
    by blast
  with compute_totals_rejects[OF code m(1)]
  show "\<exists>m. validate_promo upper promo_codes now code (sum_list (map ci_total_price cart_items))
                   = (False, 0, m)
                 \<and> m \<in> {Promo_not_correct, Promo_not_active, Promo_uses_exhausted,
                         Promo_not_started, Promo_expired}
                 \<and> c_discount (compute_totals upper promo_codes now dfee cart_items (Some code) otype)
                     = 0
                 \<and> c_promo_message_ar
                      (compute_totals upper promo_codes now dfee cart_items (Some code) otype)
                     = Some m"
    by blast
qed

lemma example_unknown_code:
  "ascii ''SAVE50'' \<noteq> []"
  "ascii_upper (ascii ''SAVE50'') \<noteq> ascii ''WELCOME10''"
  "ascii_upper (ascii ''SAVE50'') \<noteq> ascii ''FIRST20''"
  "ascii_upper (ascii ''SAVE50'') \<noteq> ascii ''FREE15''"
  by (simp_all add: ascii_upper_def ascii_def)

lemma example_inactive_code:
  "get_promo_by_code ascii_upper [inactive_welcome10_row] (ascii ''welcome10'')
     = Some inactive_welcome10_row"
  "\<not> pc_is_active inactive_welcome10_row"
  by (simp_all add: get_promo_by_code_def inactive_welcome10_row_def welcome10_row_def
        ascii_upper_def ascii_def)

theorem invalid_promo_rejected_witness:
  "(\<exists>r. calculate_total float_sum ascii_upper [sid \<mapsto> [line_of_500]] sid 15 (Some (ascii ''SAVE50''))
          = Total_ok r
        \<and> t_discount r = 0 \<and> \<not> t_promo_applied r
        \<and> last (t_breakdown_ar r) = Promo_line Code_not_correct
        \<and> t_total r = round_double (round_double (t_subtotal r + 15) - 0))
   \<and> (\<exists>m. validate_promo ascii_upper [inactive_welcome10_row] 0 (ascii ''welcome10'')
             (sum_list (map ci_total_price [example_cart_item])) = (False, 0, m)
        \<and> c_discount (compute_totals ascii_upper [inactive_welcome10_row] 0 15
             [example_cart_item] (Some (ascii ''welcome10'')) (ascii ''delivery'')) = 0
        \<and> c_promo_message_ar (compute_totals ascii_upper [inactive_welcome10_row] 0 15
             [example_cart_item] (Some (ascii ''welcome10'')) (ascii ''delivery'')) = Some m)"
proof -
  from invalid_promo_rejected[OF example_unknown_code(1), where upper = ascii_upper
      and orders = "[sid \<mapsto> [line_of_500]]" and session_id = sid and fee = 15]
  have 1: "\<exists>r. calculate_total float_sum ascii_upper [sid \<mapsto> [line_of_500]] sid 15 (Some (ascii ''SAVE50''))
          = Total_ok r
        \<and> t_discount r = 0 \<and> \<not> t_promo_applied r
        \<and> last (t_breakdown_ar r) = Promo_line Code_not_correct
        \<and> t_total r = round_double (round_double (t_subtotal r + 15) - 0)"
    using example_cart_500(1) example_unknown_code by blast
  have p: "case get_promo_by_code ascii_upper [inactive_welcome10_row] (ascii ''welcome10'') of
             None \<Rightarrow> True
           | Some promo \<Rightarrow>
               \<not> pc_is_active promo
               \<or> (\<exists>l. pc_usage_limit promo = Some l \<and> l \<noteq> 0 \<and> pc_usage_count promo \<ge> l)
               \<or> (\<exists>t. pc_valid_until promo = Some t \<and> (0::int) > t)"
    by (simp add: example_inactive_code)
  from invalid_promo_rejected[OF example_upper(3), where upper = ascii_upper
      and promo_codes = "[inactive_welcome10_row]" and now = 0 and dfee = 15
      and cart_items = "[example_cart_item]" and otype = "ascii ''delivery''",
      THEN conjunct2, THEN mp, OF p]
  have 2: "\<exists>m. validate_promo ascii_upper [inactive_welcome10_row] 0 (ascii ''welcome10'')
             (sum_list (map ci_total_price [example_cart_item])) = (False, 0, m)
        \<and> c_discount (compute_totals ascii_upper [inactive_welcome10_row] 0 15
             [example_cart_item] (Some (ascii ''welcome10'')) (ascii ''delivery'')) = 0
        \<and> c_promo_message_ar (compute_totals ascii_upper [inactive_welcome10_row] 0 15
             [example_cart_item] (Some (ascii ''welcome10'')) (ascii ''delivery'')) = Some m"
    by blast
  from 1 2 show ?thesis by blast
qed

text \<open>
  C5 as stated fails for \<open>calculate_total\<close>, which never reads the table: a WELCOME10
  row that is inactive is refused by \<open>validate_promo\<close>, yet \<open>calculate_total\<close> applies
  the code and reports it as applied.
\<close>

theorem inactive_promo_counterexample:
  "validate_promo ascii_upper [inactive_welcome10_row] 0 (ascii ''WELCOME10'') 500
     = (False, 0, Promo_not_active)
   \<and> calculate_total float_sum ascii_upper [sid \<mapsto> [line_of_500]] sid 0 (Some (ascii ''WELCOME10''))
     = Total_ok \<lparr>t_subtotal = 500, t_delivery_fee = 0, t_discount = 30, t_total = 470,
         t_breakdown_ar = [Subtotal_line 500, Discount_line 30, Total_line 470,
                           Promo_line (Percent10_applied 30)],
         t_promo_applied = True\<rparr>"
  by (simp add: validate_promo_def get_promo_by_code_def calculate_total_def
        get_session_order_def example_defs Let_def float_sum_single round_double_values)

subsection \<open>Confirming an order\<close>

lemma insert_order_items_Some:
  "insert_order_items faults py_int oid k items rows = Some rows'
   \<Longrightarrow> \<exists>new. rows' = rows @ new \<and> length new = length items"
proof (induction items arbitrary: k rows)
  case Nil
  then show ?case by simp
next
  case (Cons item items)
  then show ?case
    by (fastforce split: option.splits if_splits)
qed

lemma insert_order_items_None_iff:
  "insert_order_items faults py_int oid k items rows = None
   \<longleftrightarrow> (\<exists>item \<in> set items. py_int (item_id item) = None)
       \<or> (\<exists>j. failing_statement faults = Some j \<and> k \<le> j \<and> j < k + length items)"
proof (induction items arbitrary: k rows)
  case Nil
  then show ?case by simp
next
  case (Cons item items)
  show ?case
  proof (cases "py_int (item_id item)")
    case None
    then show ?thesis by auto
  next
    case (Some mid)
    show ?thesis
    proof (cases "failing_statement faults = Some k")
      case True
      with Some show ?thesis by auto
    next
      case False
      have "(\<exists>j. failing_statement faults = Some j \<and> Suc k \<le> j \<and> j < Suc k + length items)
            \<longleftrightarrow> (\<exists>j. failing_statement faults = Some j \<and> k \<le> j \<and> j < k + length (item # items))"
        using False by (auto simp: le_less Suc_le_eq)
      with Some False Cons.IH[of "Suc k"] show ?thesis by auto
    qed
  qed
qed

lemma save_order_atomic:
  assumes "save_order_to_database_sync faults py_int db session_id cname cphone distr otype
             items sub fee disc tot nts = (ok, db')"
  shows "(\<not> ok \<longrightarrow> db' = db)
       \<and> (ok \<longrightarrow> (\<exists>h new. db_orders db' = db_orders db @ [h] \<and> or_status h = ascii ''confirmed''
                    \<and> db_order_items db' = db_order_items db @ new \<and> length new = length items))"
  using assms
  by (auto simp: save_order_to_database_sync_def Let_def split: if_splits option.splits
      dest: insert_order_items_Some)

lemma save_order_fails_iff:
  "\<not> fst (save_order_to_database_sync faults py_int db session_id cname cphone distr otype
             items sub fee disc tot nts)
   \<longleftrightarrow> connect_fails faults \<or> commit_fails faults
       \<or> (\<exists>item \<in> set items. py_int (item_id item) = None)
       \<or> (\<exists>j. failing_statement faults = Some j \<and> j \<le> length items)"
proof -
  have "(\<exists>j. failing_statement faults = Some j \<and> j \<le> length items)
        \<longleftrightarrow> failing_statement faults = Some 0
            \<or> (\<exists>j. failing_statement faults = Some j \<and> 1 \<le> j \<and> j < 1 + length items)"
    by (cases "failing_statement faults") auto
  then show ?thesis
    using insert_order_items_None_iff[of faults py_int "db_next_id db" 1 items "db_order_items db"]
    by (auto simp: save_order_to_database_sync_def Let_def split: option.splits)
qed

text \<open>
  C1 (as the code has it). (1) When the cart is empty or the name or the phone is
  empty, \<open>confirm_order\<close> returns a failure and changes nothing. (2) When the inputs are
  valid and the store write fails (the connection is refused, a statement or the commit
  raises, or an item id is not an integer), the tables are as before, but the call
  still returns success with the order id, keeps the order in the in-memory backup and
  clears the session's cart. (3) In every call the write is atomic: the tables are
  either unchanged or extended by one confirmed order row and one item row per cart
  line.
\<close>

theorem confirm_order_on_store_failure:
  fixes st :: tool_state and faults :: store_faults and py_int :: "pystr \<Rightarrow> int option"
    and new_order_id created_at session_id cname cphone distr otype nts :: pystr
    and fee disc :: rat
  defines "cart \<equiv> get_session_order (ts_orders st) session_id"
  defines "out \<equiv> confirm_order faults py_int new_order_id created_at st session_id cname cphone
                    distr fee disc otype nts"
  shows "(cart = [] \<or> cname = [] \<or> cphone = [] \<longrightarrow>
            (\<exists>m. fst out = Confirm_failed m) \<and> snd out = st)
       \<and> (cart \<noteq> [] \<and> cname \<noteq> [] \<and> cphone \<noteq> []
           \<and> (connect_fails faults \<or> commit_fails faults
               \<or> (\<exists>item \<in> set cart. py_int (item_id item) = None)
               \<or> (\<exists>j. failing_statement faults = Some j \<and> j \<le> length cart)) \<longrightarrow>
            (\<exists>t c. fst out = Confirm_ok new_order_id t c)
            \<and> ts_db (snd out) = ts_db st
            \<and> get_session_order (ts_orders (snd out)) session_id = []
            \<and> (\<exists>r. ts_confirmed_orders (snd out) new_order_id = Some r \<and> rec_items r = cart))
       \<and> (ts_db (snd out) = ts_db st
           \<or> (\<exists>h new. db_orders (ts_db (snd out)) = db_orders (ts_db st) @ [h]
                 \<and> or_status h = ascii ''confirmed''
                 \<and> db_order_items (ts_db (snd out)) = db_order_items (ts_db st) @ new
                 \<and> length new = length cart))"
proof -
  let ?sub = "sum_list (map line_total cart)"
  let ?fee = "if otype = ascii ''delivery'' then fee else 0"
  let ?save = "save_order_to_database_sync faults py_int (ts_db st) session_id cname cphone
      distr otype cart ?sub ?fee disc (?sub + ?fee - disc) nts"
  obtain ok db' where save: "?save = (ok, db')" by (cases ?save)
  have invalid: "cart = [] \<or> cname = [] \<or> cphone = [] \<Longrightarrow>
      (\<exists>m. fst out = Confirm_failed m) \<and> snd out = st"
    by (auto simp: out_def cart_def confirm_order_def Let_def)
  have valid: "cart \<noteq> [] \<Longrightarrow> cname \<noteq> [] \<Longrightarrow> cphone \<noteq> [] \<Longrightarrow>
      (\<exists>t c. fst out = Confirm_ok new_order_id t c) \<and> ts_db (snd out) = db'
      \<and> get_session_order (ts_orders (snd out)) session_id = []
      \<and> (\<exists>r. ts_confirmed_orders (snd out) new_order_id = Some r \<and> rec_items r = cart)"
    using save
    by (simp add: out_def cart_def confirm_order_def Let_def get_session_order_def
          clear_session_order_def)
  have failing: "db' = ts_db st"
    if "connect_fails faults \<or> commit_fails faults
          \<or> (\<exists>item \<in> set cart. py_int (item_id item) = None)
          \<or> (\<exists>j. failing_statement faults = Some j \<and> j \<le> length cart)"
  proof -
    from that have "\<not> fst ?save" by (simp only: save_order_fails_iff)
    with save have "\<not> ok" by simp
    with save_order_atomic[OF save] show ?thesis by simp
  qed
  have atomic: "ts_db (snd out) = ts_db st
           \<or> (\<exists>h new. db_orders (ts_db (snd out)) = db_orders (ts_db st) @ [h]
                 \<and> or_status h = ascii ''confirmed''
                 \<and> db_order_items (ts_db (snd out)) = db_order_items (ts_db st) @ new
                 \<and> length new = length cart)"
  proof (cases "cart = [] \<or> cname = [] \<or> cphone = []")
    case True
    with invalid have "snd out = st" by blast
    then show ?thesis by simp
  next
    case False
    with valid have "ts_db (snd out) = db'" by simp
    with save_order_atomic[OF save] show ?thesis by (cases ok) auto
  qed
  from invalid valid failing atomic show ?thesis by blast
qed


lemma example_checkout_inputs:
  "get_session_order (ts_orders example_tool_state) sid \<noteq> []"
  "ascii ''Ali'' \<noteq> []" "ascii ''0551234567'' \<noteq> []"
  "connect_fails connection_refused"
  by (simp_all add: get_session_order_def example_tool_state_def connection_refused_def ascii_def)

theorem confirm_order_on_store_failure_witness:
  "(\<exists>t c. fst (confirm_order connection_refused decimal_int (ascii ''ORD-1'') (ascii ''t0'')
              example_tool_state sid (ascii ''Ali'') (ascii ''0551234567'') (ascii ''Olaya'')
              15 0 (ascii ''delivery'') []) = Confirm_ok (ascii ''ORD-1'') t c)
   \<and> ts_db (snd (confirm_order connection_refused decimal_int (ascii ''ORD-1'') (ascii ''t0'')
              example_tool_state sid (ascii ''Ali'') (ascii ''0551234567'') (ascii ''Olaya'')
              15 0 (ascii ''delivery'') [])) = ts_db example_tool_state
   \<and> get_session_order
        (ts_orders (snd (confirm_order connection_refused decimal_int (ascii ''ORD-1'') (ascii ''t0'')
              example_tool_state sid (ascii ''Ali'') (ascii ''0551234567'') (ascii ''Olaya'')
              15 0 (ascii ''delivery'') []))) sid = []
   \<and> snd (confirm_order connection_refused decimal_int (ascii ''ORD-1'') (ascii ''t0'')
              example_tool_state sid [] (ascii ''0551234567'') (ascii ''Olaya'')
              15 0 (ascii ''delivery'') []) = example_tool_state"
proof -
  note t = confirm_order_on_store_failure[where faults = connection_refused
      and py_int = decimal_int and new_order_id = "ascii ''ORD-1''" and created_at = "ascii ''t0''"
      and st = example_tool_state and session_id = sid and cphone = "ascii ''0551234567''"
      and distr = "ascii ''Olaya''" and fee = 15 and disc = 0 and otype = "ascii ''delivery''"
      and nts = "[]"]
  from t[where cname = "ascii ''Ali''", THEN conjunct2, THEN conjunct1] example_checkout_inputs
  have 1: "(\<exists>t c. fst (confirm_order connection_refused decimal_int (ascii ''ORD-1'') (ascii ''t0'')
              example_tool_state sid (ascii ''Ali'') (ascii ''0551234567'') (ascii ''Olaya'')
              15 0 (ascii ''delivery'') []) = Confirm_ok (ascii ''ORD-1'') t c)
   \<and> ts_db (snd (confirm_order connection_refused decimal_int (ascii ''ORD-1'') (ascii ''t0'')
              example_tool_state sid (ascii ''Ali'') (ascii ''0551234567'') (ascii ''Olaya'')
              15 0 (ascii ''delivery'') [])) = ts_db example_tool_state
   \<and> get_session_order
        (ts_orders (snd (confirm_order connection_refused decimal_int (ascii ''ORD-1'') (ascii ''t0'')
              example_tool_state sid (ascii ''Ali'') (ascii ''0551234567'') (ascii ''Olaya'')
              15 0 (ascii ''delivery'') []))) sid = []"
    by blast
  from t[where cname = "[]", THEN conjunct1]
  have 2: "snd (confirm_order connection_refused decimal_int (ascii ''ORD-1'') (ascii ''t0'')
              example_tool_state sid [] (ascii ''0551234567'') (ascii ''Olaya'')
              15 0 (ascii ''delivery'') []) = example_tool_state"
    by blast
  from 1 2 show ?thesis by blast
qed

text \<open>
  C1 as stated fails: with the database connection refused, \<open>confirm_order\<close> on a cart
  of one line returns the success result and leaves the session's cart empty; no row
  is written.
\<close>

theorem confirm_order_counterexample:
  "fst (confirm_order connection_refused decimal_int (ascii ''ORD-1'') (ascii ''t0'')
          example_tool_state sid (ascii ''Ali'') (ascii ''0551234567'') (ascii ''Olaya'')
          15 0 (ascii ''delivery'') [])
     = Confirm_ok (ascii ''ORD-1'') 65
         \<lparr>cf_order_id = ascii ''ORD-1'', cf_items = [(2, ascii ''shawarma'', 50)],
          cf_subtotal = 50, cf_fee_text = Some 15, cf_discount_text = None, cf_total = 65,
          cf_location = Some (ascii ''Olaya''), cf_customer_name = ascii ''Ali'',
          cf_customer_phone = ascii ''0551234567''\<rparr>
   \<and> get_session_order (ts_orders example_tool_state) sid = [shawarma_line]
   \<and> get_session_order
        (ts_orders (snd (confirm_order connection_refused decimal_int (ascii ''ORD-1'') (ascii ''t0'')
          example_tool_state sid (ascii ''Ali'') (ascii ''0551234567'') (ascii ''Olaya'')
          15 0 (ascii ''delivery'') []))) sid = []
   \<and> ts_db (snd (confirm_order connection_refused decimal_int (ascii ''ORD-1'') (ascii ''t0'')
          example_tool_state sid (ascii ''Ali'') (ascii ''0551234567'') (ascii ''Olaya'')
          15 0 (ascii ''delivery'') [])) = empty_database"
  by (simp add: confirm_order_def save_order_to_database_sync_def get_session_order_def
        clear_session_order_def Let_def decimal_int_def shawarma_line_def empty_database_def
        example_tool_state_def connection_refused_def sid_def ascii_def)

subsection \<open>Backward handoffs\<close>

lemma scan_location_keeps_flags:
  "u_current_agent (scan_location_result u d) = u_current_agent u
   \<and> u_came_from_checkout (scan_location_result u d) = u_came_from_checkout u
   \<and> u_came_from_order (scan_location_result u d) = u_came_from_order u"
  by (simp add: scan_location_result_def Let_def split: option.splits)

lemma scan_fold_keeps_flags:
  "u_current_agent (foldl (\<lambda>u msg. case json_loads (content msg) of
                                 None \<Rightarrow> u | Some d \<Rightarrow> scan_location_result u d) u0 thread)
     = u_current_agent u0
   \<and> u_came_from_checkout (foldl (\<lambda>u msg. case json_loads (content msg) of
                                 None \<Rightarrow> u | Some d \<Rightarrow> scan_location_result u d) u0 thread)
     = u_came_from_checkout u0
   \<and> u_came_from_order (foldl (\<lambda>u msg. case json_loads (content msg) of
                                 None \<Rightarrow> u | Some d \<Rightarrow> scan_location_result u d) u0 thread)
     = u_came_from_order u0"
  by (induction thread arbitrary: u0) (simp_all add: scan_location_keeps_flags split: option.splits)

lemma location_step_quiet:
  assumes "thread_handoff (snd turn) = None"
  shows "current_agent (location_node_step json_loads state turn) = current_agent state
       \<and> came_from_checkout (location_node_step json_loads state turn) = came_from_checkout state"
  using assms scan_fold_keeps_flags[of json_loads "only_messages (without_context (snd turn))" "without_context (snd turn)"]
  by (simp add: location_node_step_def call_location_agent_def thread_handoff_def Let_def
        apply_updates_def only_messages_def split: if_splits)

lemma location_step_handoff:
  assumes "thread_handoff (snd turn) = Some h"
  shows "current_agent (location_node_step json_loads state turn)
           = (if h = Agent_order \<and> came_from_checkout state then Agent_checkout
              else if h = Agent_checkout \<and> \<not> came_from_checkout state then Agent_order
              else h)
       \<and> \<not> came_from_checkout (location_node_step json_loads state turn)
       \<and> \<not> came_from_order (location_node_step json_loads state turn)"
  using assms
  by (simp add: location_node_step_def call_location_agent_def thread_handoff_def Let_def
        apply_updates_def split: if_splits)

lemma checkout_step_to_location:
  assumes "thread_handoff msgs = Some Agent_location"
  shows "current_agent (checkout_node_step json_loads state msgs) = Agent_location
       \<and> came_from_checkout (checkout_node_step json_loads state msgs)"
  using assms
  by (simp add: checkout_node_step_def call_checkout_agent_def thread_handoff_def Let_def
        apply_updates_def split: if_splits)

lemma quiet_turns_keep:
  assumes "list_all (\<lambda>turn. thread_handoff (snd turn) = None) turns"
  shows "current_agent (foldl (location_node_step json_loads) state turns) = current_agent state
       \<and> came_from_checkout (foldl (location_node_step json_loads) state turns) = came_from_checkout state"
  using assms
  by (induction turns arbitrary: state) (simp_all add: location_step_quiet)

text \<open>
  C2. When the thread of the location node ends with the handoff \<open>order\<close>, the next
  agent is the checkout agent if the \<open>came_from_checkout\<close> flag of the state is set and
  the order agent otherwise, the graph routes to that node, and both \<open>came_from\<close>
  flags are cleared by the same step. Consequently: after the checkout node hands off
  to \<open>location\<close>, any number of location turns without a handoff followed by a
  location turn that hands off forward (\<open>order\<close> or \<open>checkout\<close>) ends in the checkout
  node, never in the order node.
\<close>

theorem breadcrumb_routing:
  "(thread_handoff (snd turn) = Some Agent_order \<longrightarrow>
      current_agent (location_node_step json_loads state turn)
        = (if came_from_checkout state then Agent_checkout else Agent_order)
      \<and> route_after_location (location_node_step json_loads state turn)
        = (if came_from_checkout state then checkout_node else order_node)
      \<and> \<not> came_from_checkout (location_node_step json_loads state turn)
      \<and> \<not> came_from_order (location_node_step json_loads state turn))
   \<and> (thread_handoff checkout_msgs = Some Agent_location
      \<and> list_all (\<lambda>t. thread_handoff (snd t) = None) quiet_turns
      \<and> (thread_handoff (snd fwd) = Some Agent_order
          \<or> thread_handoff (snd fwd) = Some Agent_checkout) \<longrightarrow>
      route_after_checkout (checkout_node_step json_loads state0 checkout_msgs) = location_node
      \<and> current_agent
           (location_node_step json_loads
              (foldl (location_node_step json_loads)
                 (checkout_node_step json_loads state0 checkout_msgs) quiet_turns) fwd)
          = Agent_checkout
      \<and> route_after_location
           (location_node_step json_loads
              (foldl (location_node_step json_loads)
                 (checkout_node_step json_loads state0 checkout_msgs) quiet_turns) fwd)
          = checkout_node
      \<and> \<not> came_from_checkout
           (location_node_step json_loads
              (foldl (location_node_step json_loads)
                 (checkout_node_step json_loads state0 checkout_msgs) quiet_turns) fwd))"
proof -
  have a: "thread_handoff (snd turn) = Some Agent_order \<Longrightarrow>
      current_agent (location_node_step json_loads state turn)
        = (if came_from_checkout state then Agent_checkout else Agent_order)
      \<and> route_after_location (location_node_step json_loads state turn)
        = (if came_from_checkout state then checkout_node else order_node)
      \<and> \<not> came_from_checkout (location_node_step json_loads state turn)
      \<and> \<not> came_from_order (location_node_step json_loads state turn)"
    using location_step_handoff[of turn Agent_order json_loads state]
    by (simp add: route_after_location_def)
  have b: "route_after_checkout (checkout_node_step json_loads state0 checkout_msgs) = location_node
      \<and> current_agent
           (location_node_step json_loads
              (foldl (location_node_step json_loads)
                 (checkout_node_step json_loads state0 checkout_msgs) quiet_turns) fwd)
          = Agent_checkout
      \<and> route_after_location
           (location_node_step json_loads
              (foldl (location_node_step json_loads)
                 (checkout_node_step json_loads state0 checkout_msgs) quiet_turns) fwd)
          = checkout_node
      \<and> \<not> came_from_checkout
           (location_node_step json_loads
              (foldl (location_node_step json_loads)
                 (checkout_node_step json_loads state0 checkout_msgs) quiet_turns) fwd)"
    if c: "thread_handoff checkout_msgs = Some Agent_location"
      and q: "list_all (\<lambda>t. thread_handoff (snd t) = None) quiet_turns"
      and f: "thread_handoff (snd fwd) = Some Agent_order
          \<or> thread_handoff (snd fwd) = Some Agent_checkout"
  proof -
    let ?s1 = "checkout_node_step json_loads state0 checkout_msgs"
    let ?s2 = "foldl (location_node_step json_loads) ?s1 quiet_turns"
    from checkout_step_to_location[OF c]
    have s1: "current_agent ?s1 = Agent_location" "came_from_checkout ?s1" by simp_all
    from quiet_turns_keep[OF q] s1 have s2: "came_from_checkout ?s2" by simp
    from f have "current_agent (location_node_step json_loads ?s2 fwd) = Agent_checkout
        \<and> \<not> came_from_checkout (location_node_step json_loads ?s2 fwd)"
    proof
      assume "thread_handoff (snd fwd) = Some Agent_order"
      from location_step_handoff[OF this, of json_loads ?s2] s2 show ?thesis by simp
    next
      assume "thread_handoff (snd fwd) = Some Agent_checkout"
      from location_step_handoff[OF this, of json_loads ?s2] s2 show ?thesis by simp
    qed
    with s1 show ?thesis
      by (simp add: route_after_location_def route_after_checkout_def)
  qed
  from a b show ?thesis by blast
qed

lemma example_handoffs:
  "thread_handoff checkout_thread = Some Agent_location"
  "thread_handoff (snd quiet_turn) = None"
  "thread_handoff (snd forward_turn) = Some Agent_order"
  by (simp_all add: thread_handoff_def without_context_def extract_handoff_def
        checkout_thread_def quiet_turn_def forward_turn_def context_marker_def ascii_def Let_def)

theorem breadcrumb_routing_witness:
  "current_agent (location_node_step no_json checkout_state forward_turn) = Agent_order
   \<and> current_agent (location_node_step no_json (checkout_state\<lparr>came_from_checkout := True\<rparr>)
        forward_turn) = Agent_checkout
   \<and> route_after_checkout (checkout_node_step no_json checkout_state checkout_thread)
        = location_node
   \<and> current_agent
        (location_node_step no_json
           (foldl (location_node_step no_json)
              (checkout_node_step no_json checkout_state checkout_thread) [quiet_turn, quiet_turn])
           forward_turn)
       = Agent_checkout
   \<and> route_after_location
        (location_node_step no_json
           (foldl (location_node_step no_json)
              (checkout_node_step no_json checkout_state checkout_thread) [quiet_turn, quiet_turn])
           forward_turn)
       = checkout_node"
proof -
  have q: "list_all (\<lambda>t. thread_handoff (snd t) = None) [quiet_turn, quiet_turn]"
    by (simp add: example_handoffs)
  from breadcrumb_routing[of forward_turn no_json checkout_state, THEN conjunct1, THEN mp,
      OF example_handoffs(3)]
  have 1: "current_agent (location_node_step no_json checkout_state forward_turn) = Agent_order"
    by (simp add: checkout_state_def)
  from breadcrumb_routing[of forward_turn no_json "checkout_state\<lparr>came_from_checkout := True\<rparr>",
      THEN conjunct1, THEN mp, OF example_handoffs(3)]
  have 2: "current_agent (location_node_step no_json (checkout_state\<lparr>came_from_checkout := True\<rparr>)
        forward_turn) = Agent_checkout"
    by simp
  from breadcrumb_routing[where json_loads = no_json and state0 = checkout_state
      and checkout_msgs = checkout_thread and quiet_turns = "[quiet_turn, quiet_turn]"
      and fwd = forward_turn, THEN conjunct2, THEN mp] example_handoffs q
  have 3: "route_after_checkout (checkout_node_step no_json checkout_state checkout_thread)
        = location_node
   \<and> current_agent
        (location_node_step no_json
           (foldl (location_node_step no_json)
              (checkout_node_step no_json checkout_state checkout_thread) [quiet_turn, quiet_turn])
           forward_turn)
       = Agent_checkout
   \<and> route_after_location
        (location_node_step no_json
           (foldl (location_node_step no_json)
              (checkout_node_step no_json checkout_state checkout_thread) [quiet_turn, quiet_turn])
           forward_turn)
       = checkout_node"
    by blast
  from 1 2 3 show ?thesis by blast
qed

subsection \<open>Delivery coverage\<close>

lemmas district_defs =
  hayy_def daqiqa_def al_narjis_def al_yasmin_def al_malqa_def al_sahafa_def al_aqiq_def
  al_wurud_def al_rawdah_def al_rabwah_def al_sulaymaniyah_def al_olaya_def al_nakheel_def
  al_ghadir_def al_qairawan_def al_rimal_def

lemma covered_iff_key:
  "covered (check_delivery_district d) = (py_strip d \<in> fst ` set COVERED_DISTRICTS)"
proof (cases "map_of COVERED_DISTRICTS (py_strip d)")
  case None
  then have "py_strip d \<notin> fst ` set COVERED_DISTRICTS"
    by (simp add: map_of_eq_None_iff)
  then show ?thesis
    unfolding check_delivery_district_def Let_def None by simp
next
  case (Some info)
  then have "py_strip d \<in> fst ` set COVERED_DISTRICTS"
    by (metis map_of_eq_None_iff option.distinct(1))
  with Some show ?thesis
    by (simp add: check_delivery_district_def Let_def)
qed

lemma district_rows:
  "check_delivery_district (hayy @ al_narjis) =
     \<lparr>covered = True, cr_delivery_fee = 15, cr_estimated_time = ascii ''30-45 '' @ daqiqa,
      cr_message_ar = We_deliver_to (hayy @ al_narjis) 15 (ascii ''30-45 '' @ daqiqa),
      cr_suggestions = None\<rparr>"
  "check_delivery_district (al_narjis) =
     \<lparr>covered = True, cr_delivery_fee = 15, cr_estimated_time = ascii ''30-45 '' @ daqiqa,
      cr_message_ar = We_deliver_to (al_narjis) 15 (ascii ''30-45 '' @ daqiqa),
      cr_suggestions = None\<rparr>"
  "check_delivery_district (hayy @ al_yasmin) =
     \<lparr>covered = True, cr_delivery_fee = 15, cr_estimated_time = ascii ''30-45 '' @ daqiqa,
      cr_message_ar = We_deliver_to (hayy @ al_yasmin) 15 (ascii ''30-45 '' @ daqiqa),
      cr_suggestions = None\<rparr>"
  "check_delivery_district (al_yasmin) =
     \<lparr>covered = True, cr_delivery_fee = 15, cr_estimated_time = ascii ''30-45 '' @ daqiqa,
      cr_message_ar = We_deliver_to (al_yasmin) 15 (ascii ''30-45 '' @ daqiqa),
      cr_suggestions = None\<rparr>"
  "check_delivery_district (hayy @ al_malqa) =
     \<lparr>covered = True, cr_delivery_fee = 15, cr_estimated_time = ascii ''35-50 '' @ daqiqa,
      cr_message_ar = We_deliver_to (hayy @ al_malqa) 15 (ascii ''35-50 '' @ daqiqa),
      cr_suggestions = None\<rparr>"
  "check_delivery_district (al_malqa) =
     \<lparr>covered = True, cr_delivery_fee = 15, cr_estimated_time = ascii ''35-50 '' @ daqiqa,
      cr_message_ar = We_deliver_to (al_malqa) 15 (ascii ''35-50 '' @ daqiqa),
      cr_suggestions = None\<rparr>"
  "check_delivery_district (hayy @ al_sahafa) =
     \<lparr>covered = True, cr_delivery_fee = 12, cr_estimated_time = ascii ''25-40 '' @ daqiqa,
      cr_message_ar = We_deliver_to (hayy @ al_sahafa) 12 (ascii ''25-40 '' @ daqiqa),
      cr_suggestions = None\<rparr>"
  "check_delivery_district (al_sahafa) =
     \<lparr>covered = True, cr_delivery_fee = 12, cr_estimated_time = ascii ''25-40 '' @ daqiqa,
      cr_message_ar = We_deliver_to (al_sahafa) 12 (ascii ''25-40 '' @ daqiqa),
      cr_suggestions = None\<rparr>"
  "check_delivery_district (hayy @ al_aqiq) =
     \<lparr>covered = True, cr_delivery_fee = 15, cr_estimated_time = ascii ''30-45 '' @ daqiqa,
      cr_message_ar = We_deliver_to (hayy @ al_aqiq) 15 (ascii ''30-45 '' @ daqiqa),
      cr_suggestions = None\<rparr>"
  "check_delivery_district (al_aqiq) =
     \<lparr>covered = True, cr_delivery_fee = 15, cr_estimated_time = ascii ''30-45 '' @ daqiqa,
      cr_message_ar = We_deliver_to (al_aqiq) 15 (ascii ''30-45 '' @ daqiqa),
      cr_suggestions = None\<rparr>"
  "check_delivery_district (hayy @ al_wurud) =
     \<lparr>covered = True, cr_delivery_fee = 10, cr_estimated_time = ascii ''20-35 '' @ daqiqa,
      cr_message_ar = We_deliver_to (hayy @ al_wurud) 10 (ascii ''20-35 '' @ daqiqa),
      cr_suggestions = None\<rparr>"
  "check_delivery_district (al_wurud) =
     \<lparr>covered = True, cr_delivery_fee = 10, cr_estimated_time = ascii ''20-35 '' @ daqiqa,
      cr_message_ar = We_deliver_to (al_wurud) 10 (ascii ''20-35 '' @ daqiqa),
      cr_suggestions = None\<rparr>"
  "check_delivery_district (hayy @ al_rawdah) =
     \<lparr>covered = True, cr_delivery_fee = 12, cr_estimated_time = ascii ''25-40 '' @ daqiqa,
      cr_message_ar = We_deliver_to (hayy @ al_rawdah) 12 (ascii ''25-40 '' @ daqiqa),
      cr_suggestions = None\<rparr>"
  "check_delivery_district (al_rawdah) =
     \<lparr>covered = True, cr_delivery_fee = 12, cr_estimated_time = ascii ''25-40 '' @ daqiqa,
      cr_message_ar = We_deliver_to (al_rawdah) 12 (ascii ''25-40 '' @ daqiqa),
      cr_suggestions = None\<rparr>"
  "check_delivery_district (hayy @ al_rabwah) =
     \<lparr>covered = True, cr_delivery_fee = 12, cr_estimated_time = ascii ''25-40 '' @ daqiqa,
      cr_message_ar = We_deliver_to (hayy @ al_rabwah) 12 (ascii ''25-40 '' @ daqiqa),
      cr_suggestions = None\<rparr>"
  "check_delivery_district (al_rabwah) =
     \<lparr>covered = True, cr_delivery_fee = 12, cr_estimated_time = ascii ''25-40 '' @ daqiqa,
      cr_message_ar = We_deliver_to (al_rabwah) 12 (ascii ''25-40 '' @ daqiqa),
      cr_suggestions = None\<rparr>"
  "check_delivery_district (hayy @ al_sulaymaniyah) =
     \<lparr>covered = True, cr_delivery_fee = 10, cr_estimated_time = ascii ''20-30 '' @ daqiqa,
      cr_message_ar = We_deliver_to (hayy @ al_sulaymaniyah) 10 (ascii ''20-30 '' @ daqiqa),
      cr_suggestions = None\<rparr>"
  "check_delivery_district (al_sulaymaniyah) =
     \<lparr>covered = True, cr_delivery_fee = 10, cr_estimated_time = ascii ''20-30 '' @ daqiqa,
      cr_message_ar = We_deliver_to (al_sulaymaniyah) 10 (ascii ''20-30 '' @ daqiqa),
      cr_suggestions = None\<rparr>"
  "check_delivery_district (hayy @ al_olaya) =
     \<lparr>covered = True, cr_delivery_fee = 10, cr_estimated_time = ascii ''15-25 '' @ daqiqa,
      cr_message_ar = We_deliver_to (hayy @ al_olaya) 10 (ascii ''15-25 '' @ daqiqa),
      cr_suggestions = None\<rparr>"
  "check_delivery_district (al_olaya) =
     \<lparr>covered = True, cr_delivery_fee = 10, cr_estimated_time = ascii ''15-25 '' @ daqiqa,
      cr_message_ar = We_deliver_to (al_olaya) 10 (ascii ''15-25 '' @ daqiqa),
      cr_suggestions = None\<rparr>"
  "check_delivery_district (hayy @ al_nakheel) =
     \<lparr>covered = True, cr_delivery_fee = 15, cr_estimated_time = ascii ''30-45 '' @ daqiqa,
      cr_message_ar = We_deliver_to (hayy @ al_nakheel) 15 (ascii ''30-45 '' @ daqiqa),
      cr_suggestions = None\<rparr>"
  "check_delivery_district (al_nakheel) =
     \<lparr>covered = True, cr_delivery_fee = 15, cr_estimated_time = ascii ''30-45 '' @ daqiqa,
      cr_message_ar = We_deliver_to (al_nakheel) 15 (ascii ''30-45 '' @ daqiqa),
      cr_suggestions = None\<rparr>"
  "check_delivery_district (hayy @ al_ghadir) =
     \<lparr>covered = True, cr_delivery_fee = 15, cr_estimated_time = ascii ''35-50 '' @ daqiqa,
      cr_message_ar = We_deliver_to (hayy @ al_ghadir) 15 (ascii ''35-50 '' @ daqiqa),
      cr_suggestions = None\<rparr>"
  "check_delivery_district (al_ghadir) =
     \<lparr>covered = True, cr_delivery_fee = 15, cr_estimated_time = ascii ''35-50 '' @ daqiqa,
      cr_message_ar = We_deliver_to (al_ghadir) 15 (ascii ''35-50 '' @ daqiqa),
      cr_suggestions = None\<rparr>"
  "check_delivery_district (hayy @ al_qairawan) =
     \<lparr>covered = True, cr_delivery_fee = 18, cr_estimated_time = ascii ''40-55 '' @ daqiqa,
      cr_message_ar = We_deliver_to (hayy @ al_qairawan) 18 (ascii ''40-55 '' @ daqiqa),
      cr_suggestions = None\<rparr>"
  "check_delivery_district (al_qairawan) =
     \<lparr>covered = True, cr_delivery_fee = 18, cr_estimated_time = ascii ''40-55 '' @ daqiqa,
      cr_message_ar = We_deliver_to (al_qairawan) 18 (ascii ''40-55 '' @ daqiqa),
      cr_suggestions = None\<rparr>"
  "check_delivery_district (hayy @ al_rimal) =
     \<lparr>covered = True, cr_delivery_fee = 18, cr_estimated_time = ascii ''40-55 '' @ daqiqa,
      cr_message_ar = We_deliver_to (hayy @ al_rimal) 18 (ascii ''40-55 '' @ daqiqa),
      cr_suggestions = None\<rparr>"
  "check_delivery_district (al_rimal) =
     \<lparr>covered = True, cr_delivery_fee = 18, cr_estimated_time = ascii ''40-55 '' @ daqiqa,
      cr_message_ar = We_deliver_to (al_rimal) 18 (ascii ''40-55 '' @ daqiqa),
      cr_suggestions = None\<rparr>"
  by (simp_all add: check_delivery_district_def COVERED_DISTRICTS_def py_strip_def
        py_isspace_def district_defs)

lemma names_without_article:
  "py_strip (drop 2 al_narjis) \<notin> fst ` set COVERED_DISTRICTS"
  "py_strip (drop 2 al_yasmin) \<notin> fst ` set COVERED_DISTRICTS"
  "py_strip (drop 2 al_malqa) \<notin> fst ` set COVERED_DISTRICTS"
  "py_strip (drop 2 al_sahafa) \<notin> fst ` set COVERED_DISTRICTS"
  "py_strip (drop 2 al_aqiq) \<notin> fst ` set COVERED_DISTRICTS"
  "py_strip (drop 2 al_wurud) \<notin> fst ` set COVERED_DISTRICTS"
  "py_strip (drop 2 al_rawdah) \<notin> fst ` set COVERED_DISTRICTS"
  "py_strip (drop 2 al_rabwah) \<notin> fst ` set COVERED_DISTRICTS"
  "py_strip (drop 2 al_sulaymaniyah) \<notin> fst ` set COVERED_DISTRICTS"
  "py_strip (drop 2 al_olaya) \<notin> fst ` set COVERED_DISTRICTS"
  "py_strip (drop 2 al_nakheel) \<notin> fst ` set COVERED_DISTRICTS"
  "py_strip (drop 2 al_ghadir) \<notin> fst ` set COVERED_DISTRICTS"
  "py_strip (drop 2 al_qairawan) \<notin> fst ` set COVERED_DISTRICTS"
  "py_strip (drop 2 al_rimal) \<notin> fst ` set COVERED_DISTRICTS"
  by (simp_all add: COVERED_DISTRICTS_def py_strip_def py_isspace_def district_defs)

lemma suggestions_without_article:
  "check_delivery_district (drop 2 al_narjis) =
     \<lparr>covered = False, cr_delivery_fee = 0, cr_estimated_time = [],
      cr_message_ar = Did_you_mean (drop 2 al_narjis) [hayy @ al_narjis, al_narjis],
      cr_suggestions = Some [hayy @ al_narjis, al_narjis]\<rparr>"
  "check_delivery_district (drop 2 al_yasmin) =
     \<lparr>covered = False, cr_delivery_fee = 0, cr_estimated_time = [],
      cr_message_ar = Did_you_mean (drop 2 al_yasmin) [hayy @ al_yasmin, al_yasmin],
      cr_suggestions = Some [hayy @ al_yasmin, al_yasmin]\<rparr>"
  "check_delivery_district (drop 2 al_malqa) =
     \<lparr>covered = False, cr_delivery_fee = 0, cr_estimated_time = [],
      cr_message_ar = Did_you_mean (drop 2 al_malqa) [hayy @ al_malqa, al_malqa],
      cr_suggestions = Some [hayy @ al_malqa, al_malqa]\<rparr>"
  "check_delivery_district (drop 2 al_sahafa) =
     \<lparr>covered = False, cr_delivery_fee = 0, cr_estimated_time = [],
      cr_message_ar = Did_you_mean (drop 2 al_sahafa) [hayy @ al_sahafa, al_sahafa],
      cr_suggestions = Some [hayy @ al_sahafa, al_sahafa]\<rparr>"
  "check_delivery_district (drop 2 al_aqiq) =
     \<lparr>covered = False, cr_delivery_fee = 0, cr_estimated_time = [],
      cr_message_ar = Did_you_mean (drop 2 al_aqiq) [hayy @ al_aqiq, al_aqiq],
      cr_suggestions = Some [hayy @ al_aqiq, al_aqiq]\<rparr>"
  "check_delivery_district (drop 2 al_wurud) =
     \<lparr>covered = False, cr_delivery_fee = 0, cr_estimated_time = [],
      cr_message_ar = Did_you_mean (drop 2 al_wurud) [hayy @ al_wurud, al_wurud],
      cr_suggestions = Some [hayy @ al_wurud, al_wurud]\<rparr>"
  "check_delivery_district (drop 2 al_rawdah) =
     \<lparr>covered = False, cr_delivery_fee = 0, cr_estimated_time = [],
      cr_message_ar = Did_you_mean (drop 2 al_rawdah) [hayy @ al_rawdah, al_rawdah],
      cr_suggestions = Some [hayy @ al_rawdah, al_rawdah]\<rparr>"
  "check_delivery_district (drop 2 al_rabwah) =
     \<lparr>covered = False, cr_delivery_fee = 0, cr_estimated_time = [],
      cr_message_ar = Did_you_mean (drop 2 al_rabwah) [hayy @ al_rabwah, al_rabwah],
      cr_suggestions = Some [hayy @ al_rabwah, al_rabwah]\<rparr>"
  "check_delivery_district (drop 2 al_sulaymaniyah) =
     \<lparr>covered = False, cr_delivery_fee = 0, cr_estimated_time = [],
      cr_message_ar = Did_you_mean (drop 2 al_sulaymaniyah) [hayy @ al_sulaymaniyah, al_sulaymaniyah],
      cr_suggestions = Some [hayy @ al_sulaymaniyah, al_sulaymaniyah]\<rparr>"
  "check_delivery_district (drop 2 al_olaya) =
     \<lparr>covered = False, cr_delivery_fee = 0, cr_estimated_time = [],
      cr_message_ar = Did_you_mean (drop 2 al_olaya) [hayy @ al_olaya, al_olaya],
      cr_suggestions = Some [hayy @ al_olaya, al_olaya]\<rparr>"
  "check_delivery_district (drop 2 al_nakheel) =
     \<lparr>covered = False, cr_delivery_fee = 0, cr_estimated_time = [],
      cr_message_ar = Did_you_mean (drop 2 al_nakheel) [hayy @ al_nakheel, al_nakheel],
      cr_suggestions = Some [hayy @ al_nakheel, al_nakheel]\<rparr>"
  "check_delivery_district (drop 2 al_ghadir) =
     \<lparr>covered = False, cr_delivery_fee = 0, cr_estimated_time = [],
      cr_message_ar = Did_you_mean (drop 2 al_ghadir) [hayy @ al_ghadir, al_ghadir],
      cr_suggestions = Some [hayy @ al_ghadir, al_ghadir]\<rparr>"
  "check_delivery_district (drop 2 al_qairawan) =
     \<lparr>covered = False, cr_delivery_fee = 0, cr_estimated_time = [],
      cr_message_ar = Did_you_mean (drop 2 al_qairawan) [hayy @ al_qairawan, al_qairawan],
      cr_suggestions = Some [hayy @ al_qairawan, al_qairawan]\<rparr>"
  "check_delivery_district (drop 2 al_rimal) =
     \<lparr>covered = False, cr_delivery_fee = 0, cr_estimated_time = [],
      cr_message_ar = Did_you_mean (drop 2 al_rimal) [hayy @ al_rimal, al_rimal],
      cr_suggestions = Some [hayy @ al_rimal, al_rimal]\<rparr>"
  by (simp_all add: check_delivery_district_def COVERED_DISTRICTS_def py_strip_def
        py_isspace_def district_defs Let_def)

lemma normalized_names:
  "normalize_area_name (hayy @ al_narjis) = normalize_area_name al_narjis"
  "normalize_area_name (hayy @ al_yasmin) = normalize_area_name al_yasmin"
  "normalize_area_name (hayy @ al_malqa) = normalize_area_name al_malqa"
  "normalize_area_name (hayy @ al_sahafa) = normalize_area_name al_sahafa"
  "normalize_area_name (hayy @ al_aqiq) = normalize_area_name al_aqiq"
  "normalize_area_name (hayy @ al_wurud) = normalize_area_name al_wurud"
  "normalize_area_name (hayy @ al_rawdah) = normalize_area_name al_rawdah"
  "normalize_area_name (hayy @ al_rabwah) = normalize_area_name al_rabwah"
  "normalize_area_name (hayy @ al_sulaymaniyah) = normalize_area_name al_sulaymaniyah"
  "normalize_area_name (hayy @ al_olaya) = normalize_area_name al_olaya"
  "normalize_area_name (hayy @ al_nakheel) = normalize_area_name al_nakheel"
  "normalize_area_name (hayy @ al_ghadir) = normalize_area_name al_ghadir"
  "normalize_area_name (hayy @ al_qairawan) = normalize_area_name al_qairawan"
  "normalize_area_name (hayy @ al_rimal) = normalize_area_name al_rimal"
  by (simp_all add: normalize_area_name_def clean_arabic_text_def area_prefixes_def py_split_def
        py_strip_def py_isspace_def district_defs Let_def)

text \<open>
  \<open>check_delivery_district\<close> strips the name and looks it up among the keys of the
  table, so a name is covered exactly when its stripped form is a key. The table lists
  every district with and without the prefix "district": for each of the fourteen
  districts both spellings are covered, with the same fee and the same estimated time
  (and \<open>normalize_area_name\<close>, which the lookup does not call, maps both spellings to
  one string). The name without the definite article is no key: for each district it is
  not covered, and the answer suggests the two spellings of the table.
\<close>

lemma check_delivery_district_by_key:
  "covered (check_delivery_district d) = (py_strip d \<in> fst ` set COVERED_DISTRICTS)
   \<and> list_all (\<lambda>name.
         covered (check_delivery_district (hayy @ name))
         \<and> covered (check_delivery_district name)
         \<and> cr_delivery_fee (check_delivery_district (hayy @ name))
             = cr_delivery_fee (check_delivery_district name)
         \<and> cr_estimated_time (check_delivery_district (hayy @ name))
             = cr_estimated_time (check_delivery_district name)
         \<and> normalize_area_name (hayy @ name) = normalize_area_name name)
       district_names
   \<and> list_all (\<lambda>name.
         check_delivery_district (drop 2 name)
           = \<lparr>covered = False, cr_delivery_fee = 0, cr_estimated_time = [],
              cr_message_ar = Did_you_mean (drop 2 name) [hayy @ name, name],
              cr_suggestions = Some [hayy @ name, name]\<rparr>)
       district_names"
proof -
  have 1: "covered (check_delivery_district d) = (py_strip d \<in> fst ` set COVERED_DISTRICTS)"
    by (rule covered_iff_key)
  have 2: "list_all (\<lambda>name.
         covered (check_delivery_district (hayy @ name))
         \<and> covered (check_delivery_district name)
         \<and> cr_delivery_fee (check_delivery_district (hayy @ name))
             = cr_delivery_fee (check_delivery_district name)
         \<and> cr_estimated_time (check_delivery_district (hayy @ name))
             = cr_estimated_time (check_delivery_district name)
         \<and> normalize_area_name (hayy @ name) = normalize_area_name name)
       district_names"
    by (simp add: district_names_def district_rows normalized_names)
  have 3: "list_all (\<lambda>name.
         check_delivery_district (drop 2 name)
           = \<lparr>covered = False, cr_delivery_fee = 0, cr_estimated_time = [],
              cr_message_ar = Did_you_mean (drop 2 name) [hayy @ name, name],
              cr_suggestions = Some [hayy @ name, name]\<rparr>)
       district_names"
    by (simp add: district_names_def suggestions_without_article)
  from 1 2 3 show ?thesis by blast
qed

lemmas area_defs = district_defs al_malik_fahd_def

lemma coverage_check_is_covered:
  "cc_is_covered (coverage_check ilike order_by_name_ar covered_areas name)
     = (find_area_by_name covered_areas (py_strip (normalize_area_name name)) \<noteq> None)"
  by (simp add: coverage_check_def check_coverage_def Let_def split: option.splits)

lemma coverage_check_area_id:
  "cc_area_id (coverage_check ilike order_by_name_ar covered_areas name)
     = map_option ca_id (find_area_by_name covered_areas (py_strip (normalize_area_name name)))"
  by (simp add: coverage_check_def check_coverage_def Let_def split: option.splits)

lemma coverage_check_found:
  assumes "find_area_by_name covered_areas (py_strip (normalize_area_name name)) = Some row"
  shows "coverage_check ilike order_by_name_ar covered_areas name
     = \<lparr>cc_is_covered = True, cc_area_id = Some (ca_id row),
        cc_area_name_ar = Some (ca_name_ar row), cc_area_name_en = ca_name_en row,
        cc_city = Some (ca_city row), cc_suggestions = None,
        cc_message_ar = Yes_we_deliver_to (ca_name_ar row)\<rparr>"
  using assms by (simp add: coverage_check_def check_coverage_def Let_def)

lemma teh_marbuta_in_names:
  "(1577 \<in> set (hayy @ al_narjis)) = False"
  "(1577 \<in> set (hayy @ al_yasmin)) = False"
  "(1577 \<in> set (hayy @ al_malqa)) = False"
  "(1577 \<in> set (hayy @ al_sahafa)) = True"
  "(1577 \<in> set (hayy @ al_aqiq)) = False"
  "(1577 \<in> set (hayy @ al_wurud)) = False"
  "(1577 \<in> set (hayy @ al_rawdah)) = True"
  "(1577 \<in> set (hayy @ al_rabwah)) = True"
  "(1577 \<in> set (hayy @ al_sulaymaniyah)) = True"
  "(1577 \<in> set (hayy @ al_malik_fahd)) = False"
  "(1577 \<in> set (hayy @ al_olaya)) = False"
  "(1577 \<in> set (hayy @ al_nakheel)) = False"
  "(1577 \<in> set (hayy @ al_ghadir)) = False"
  "(1577 \<in> set (hayy @ al_qairawan)) = False"
  "(1577 \<in> set (hayy @ al_rimal)) = False"
  by (simp_all add: area_defs)

lemma seeded_lookups:
  "find_area_by_name COVERED_AREAS (py_strip (normalize_area_name (hayy @ al_narjis)))
     = Some (seeded_area 1 (hayy @ al_narjis) ''Al Narjis'' [al_narjis, [1606, 1585, 1580, 1587]])"
  "find_area_by_name COVERED_AREAS (py_strip (normalize_area_name al_narjis))
     = Some (seeded_area 1 (hayy @ al_narjis) ''Al Narjis'' [al_narjis, [1606, 1585, 1580, 1587]])"
  "find_area_by_name COVERED_AREAS (py_strip (normalize_area_name [1606, 1585, 1580, 1587]))
     = Some (seeded_area 1 (hayy @ al_narjis) ''Al Narjis'' [al_narjis, [1606, 1585, 1580, 1587]])"
  "find_area_by_name COVERED_AREAS (py_strip (normalize_area_name (hayy @ al_yasmin)))
     = Some (seeded_area 2 (hayy @ al_yasmin) ''Al Yasmin'' [al_yasmin, [1610, 1575, 1587, 1605, 1610, 1606]])"
  "find_area_by_name COVERED_AREAS (py_strip (normalize_area_name al_yasmin))
     = Some (seeded_area 2 (hayy @ al_yasmin) ''Al Yasmin'' [al_yasmin, [1610, 1575, 1587, 1605, 1610, 1606]])"
  "find_area_by_name COVERED_AREAS (py_strip (normalize_area_name [1610, 1575, 1587, 1605, 1610, 1606]))
     = Some (seeded_area 2 (hayy @ al_yasmin) ''Al Yasmin'' [al_yasmin, [1610, 1575, 1587, 1605, 1610, 1606]])"
  "find_area_by_name COVERED_AREAS (py_strip (normalize_area_name (hayy @ al_malqa)))
     = Some (seeded_area 3 (hayy @ al_malqa) ''Al Malqa'' [al_malqa, [1605, 1604, 1602, 1575]])"
  "find_area_by_name COVERED_AREAS (py_strip (normalize_area_name al_malqa))
     = Some (seeded_area 3 (hayy @ al_malqa) ''Al Malqa'' [al_malqa, [1605, 1604, 1602, 1575]])"
  "find_area_by_name COVERED_AREAS (py_strip (normalize_area_name [1605, 1604, 1602, 1575]))
     = Some (seeded_area 3 (hayy @ al_malqa) ''Al Malqa'' [al_malqa, [1605, 1604, 1602, 1575]])"
  "find_area_by_name COVERED_AREAS (py_strip (normalize_area_name (hayy @ al_sahafa))) = None"
  "find_area_by_name COVERED_AREAS (py_strip (normalize_area_name al_sahafa)) = None"
  "find_area_by_name COVERED_AREAS (py_strip (normalize_area_name [1589, 1581, 1575, 1601, 1577])) = None"
  "find_area_by_name COVERED_AREAS (py_strip (normalize_area_name (hayy @ al_aqiq)))
     = Some (seeded_area 5 (hayy @ al_aqiq) ''Al Aqiq'' [al_aqiq, [1593, 1602, 1610, 1602]])"
  "find_area_by_name COVERED_AREAS (py_strip (normalize_area_name al_aqiq))
     = Some (seeded_area 5 (hayy @ al_aqiq) ''Al Aqiq'' [al_aqiq, [1593, 1602, 1610, 1602]])"
  "find_area_by_name COVERED_AREAS (py_strip (normalize_area_name [1593, 1602, 1610, 1602]))
     = Some (seeded_area 5 (hayy @ al_aqiq) ''Al Aqiq'' [al_aqiq, [1593, 1602, 1610, 1602]])"
  "find_area_by_name COVERED_AREAS (py_strip (normalize_area_name (hayy @ al_wurud)))
     = Some (seeded_area 6 (hayy @ al_wurud) ''Al Wurud'' [al_wurud, [1608, 1585, 1608, 1583]])"
  "find_area_by_name COVERED_AREAS (py_strip (normalize_area_name al_wurud))
     = Some (seeded_area 6 (hayy @ al_wurud) ''Al Wurud'' [al_wurud, [1608, 1585, 1608, 1583]])"
  "find_area_by_name COVERED_AREAS (py_strip (normalize_area_name [1608, 1585, 1608, 1583]))
     = Some (seeded_area 6 (hayy @ al_wurud) ''Al Wurud'' [al_wurud, [1608, 1585, 1608, 1583]])"
  "find_area_by_name COVERED_AREAS (py_strip (normalize_area_name (hayy @ al_rawdah))) = None"
  "find_area_by_name COVERED_AREAS (py_strip (normalize_area_name al_rawdah)) = None"
  "find_area_by_name COVERED_AREAS (py_strip (normalize_area_name [1585, 1608, 1590, 1577])) = None"
  "find_area_by_name COVERED_AREAS (py_strip (normalize_area_name (hayy @ al_rabwah))) = None"
  "find_area_by_name COVERED_AREAS (py_strip (normalize_area_name al_rabwah)) = None"
  "find_area_by_name COVERED_AREAS (py_strip (normalize_area_name [1585, 1576, 1608, 1577])) = None"
  "find_area_by_name COVERED_AREAS (py_strip (normalize_area_name (hayy @ al_sulaymaniyah))) = None"
  "find_area_by_name COVERED_AREAS (py_strip (normalize_area_name al_sulaymaniyah)) = None"
  "find_area_by_name COVERED_AREAS (py_strip (normalize_area_name [1587, 1604, 1610, 1605, 1575, 1606, 1610, 1577])) = None"
  "find_area_by_name COVERED_AREAS (py_strip (normalize_area_name (hayy @ al_malik_fahd)))
     = Some (seeded_area 10 (hayy @ al_malik_fahd) ''King Fahd District'' [al_malik_fahd, [1605, 1604, 1603, 32, 1601, 1607, 1583]])"
  "find_area_by_name COVERED_AREAS (py_strip (normalize_area_name al_malik_fahd))
     = Some (seeded_area 10 (hayy @ al_malik_fahd) ''King Fahd District'' [al_malik_fahd, [1605, 1604, 1603, 32, 1601, 1607, 1583]])"
  "find_area_by_name COVERED_AREAS (py_strip (normalize_area_name [1605, 1604, 1603, 32, 1601, 1607, 1583]))
     = Some (seeded_area 10 (hayy @ al_malik_fahd) ''King Fahd District'' [al_malik_fahd, [1605, 1604, 1603, 32, 1601, 1607, 1583]])"
  "find_area_by_name COVERED_AREAS (py_strip (normalize_area_name (hayy @ al_olaya)))
     = Some (seeded_area 11 (hayy @ al_olaya) ''Al Olaya'' [al_olaya, [1593, 1604, 1610, 1575]])"
  "find_area_by_name COVERED_AREAS (py_strip (normalize_area_name al_olaya))
     = Some (seeded_area 11 (hayy @ al_olaya) ''Al Olaya'' [al_olaya, [1593, 1604, 1610, 1575]])"
  "find_area_by_name COVERED_AREAS (py_strip (normalize_area_name [1593, 1604, 1610, 1575]))
     = Some (seeded_area 11 (hayy @ al_olaya) ''Al Olaya'' [al_olaya, [1593, 1604, 1610, 1575]])"
  "find_area_by_name COVERED_AREAS (py_strip (normalize_area_name (hayy @ al_nakheel)))
     = Some (seeded_area 12 (hayy @ al_nakheel) ''Al Nakheel'' [al_nakheel, [1606, 1582, 1610, 1604]])"
  "find_area_by_name COVERED_AREAS (py_strip (normalize_area_name al_nakheel))
     = Some (seeded_area 12 (hayy @ al_nakheel) ''Al Nakheel'' [al_nakheel, [1606, 1582, 1610, 1604]])"
  "find_area_by_name COVERED_AREAS (py_strip (normalize_area_name [1606, 1582, 1610, 1604]))
     = Some (seeded_area 12 (hayy @ al_nakheel) ''Al Nakheel'' [al_nakheel, [1606, 1582, 1610, 1604]])"
  "find_area_by_name COVERED_AREAS (py_strip (normalize_area_name (hayy @ al_ghadir)))
     = Some (seeded_area 13 (hayy @ al_ghadir) ''Al Ghadir'' [al_ghadir, [1594, 1583, 1610, 1585]])"
  "find_area_by_name COVERED_AREAS (py_strip (normalize_area_name al_ghadir))
     = Some (seeded_area 13 (hayy @ al_ghadir) ''Al Ghadir'' [al_ghadir, [1594, 1583, 1610, 1585]])"
  "find_area_by_name COVERED_AREAS (py_strip (normalize_area_name [1594, 1583, 1610, 1585]))
     = Some (seeded_area 13 (hayy @ al_ghadir) ''Al Ghadir'' [al_ghadir, [1594, 1583, 1610, 1585]])"
  "find_area_by_name COVERED_AREAS (py_strip (normalize_area_name (hayy @ al_qairawan)))
     = Some (seeded_area 14 (hayy @ al_qairawan) ''Al Qairawan'' [al_qairawan, [1602, 1610, 1585, 1608, 1575, 1606]])"
  "find_area_by_name COVERED_AREAS (py_strip (normalize_area_name al_qairawan))
     = Some (seeded_area 14 (hayy @ al_qairawan) ''Al Qairawan'' [al_qairawan, [1602, 1610, 1585, 1608, 1575, 1606]])"
  "find_area_by_name COVERED_AREAS (py_strip (normalize_area_name [1602, 1610, 1585, 1608, 1575, 1606]))
     = Some (seeded_area 14 (hayy @ al_qairawan) ''Al Qairawan'' [al_qairawan, [1602, 1610, 1585, 1608, 1575, 1606]])"
  "find_area_by_name COVERED_AREAS (py_strip (normalize_area_name (hayy @ al_rimal)))
     = Some (seeded_area 15 (hayy @ al_rimal) ''Al Rimal'' [al_rimal, [1585, 1605, 1575, 1604]])"
  "find_area_by_name COVERED_AREAS (py_strip (normalize_area_name al_rimal))
     = Some (seeded_area 15 (hayy @ al_rimal) ''Al Rimal'' [al_rimal, [1585, 1605, 1575, 1604]])"
  "find_area_by_name COVERED_AREAS (py_strip (normalize_area_name [1585, 1605, 1575, 1604]))
     = Some (seeded_area 15 (hayy @ al_rimal) ''Al Rimal'' [al_rimal, [1585, 1605, 1575, 1604]])"
  by (simp_all add: find_area_by_name_def COVERED_AREAS_def seeded_area_def normalize_area_name_def
        clean_arabic_text_def area_prefixes_def py_split_def py_strip_def py_isspace_def
        area_defs ascii_def Let_def)

lemma spelling_variants:
  "find_area_by_name COVERED_AREAS (py_strip (normalize_area_name [1571, 1604, 1606, 1585, 1580, 1587]))
     = Some (seeded_area 1 (hayy @ al_narjis) ''Al Narjis'' [al_narjis, [1606, 1585, 1580, 1587]])"
  "find_area_by_name COVERED_AREAS
       (py_strip (normalize_area_name [1575, 1604, 1606, 1614, 1585, 1580, 1587]))
     = Some (seeded_area 1 (hayy @ al_narjis) ''Al Narjis'' [al_narjis, [1606, 1585, 1580, 1587]])"
  "normalize_area_name (hayy @ al_sahafa) = [1575, 1604, 1589, 1581, 1575, 1601, 1607]"
  "al_sahafa = [1575, 1604, 1589, 1581, 1575, 1601, 1577]"
  by (simp_all add: find_area_by_name_def COVERED_AREAS_def seeded_area_def normalize_area_name_def
        clean_arabic_text_def area_prefixes_def py_split_def py_strip_def py_isspace_def
        area_defs ascii_def Let_def)

lemma variants_not_keys:
  "py_strip [1571, 1604, 1606, 1585, 1580, 1587] \<notin> fst ` set COVERED_DISTRICTS"
  "py_strip [1575, 1604, 1606, 1614, 1585, 1580, 1587] \<notin> fst ` set COVERED_DISTRICTS"
  "py_strip [1606, 1585, 1580, 1587] \<notin> fst ` set COVERED_DISTRICTS"
  by (simp_all add: COVERED_DISTRICTS_def py_strip_def py_isspace_def district_defs)

lemma seeded_rows:
  fixes ilike :: "pystr \<Rightarrow> pystr \<Rightarrow> bool"
  assumes xs: "xs =
           [seeded_area 1 (hayy @ al_narjis) ''Al Narjis''
              [al_narjis, [1606, 1585, 1580, 1587]],
            seeded_area 2 (hayy @ al_yasmin) ''Al Yasmin''
              [al_yasmin, [1610, 1575, 1587, 1605, 1610, 1606]],
            seeded_area 3 (hayy @ al_malqa) ''Al Malqa''
              [al_malqa, [1605, 1604, 1602, 1575]],
            seeded_area 4 (hayy @ al_sahafa) ''Al Sahafa''
              [al_sahafa, [1589, 1581, 1575, 1601, 1577]],
            seeded_area 5 (hayy @ al_aqiq) ''Al Aqiq''
              [al_aqiq, [1593, 1602, 1610, 1602]],
            seeded_area 6 (hayy @ al_wurud) ''Al Wurud''
              [al_wurud, [1608, 1585, 1608, 1583]],
            seeded_area 7 (hayy @ al_rawdah) ''Al Rawdah''
              [al_rawdah, [1585, 1608, 1590, 1577]],
            seeded_area 8 (hayy @ al_rabwah) ''Al Rabwah''
              [al_rabwah, [1585, 1576, 1608, 1577]],
            seeded_area 9 (hayy @ al_sulaymaniyah) ''Al Sulaymaniyah''
              [al_sulaymaniyah, [1587, 1604, 1610, 1605, 1575, 1606, 1610, 1577]],
            seeded_area 10 (hayy @ al_malik_fahd) ''King Fahd District''
              [al_malik_fahd, [1605, 1604, 1603, 32, 1601, 1607, 1583]],
            seeded_area 11 (hayy @ al_olaya) ''Al Olaya''
              [al_olaya, [1593, 1604, 1610, 1575]],
            seeded_area 12 (hayy @ al_nakheel) ''Al Nakheel''
              [al_nakheel, [1606, 1582, 1610, 1604]],
            seeded_area 13 (hayy @ al_ghadir) ''Al Ghadir''
              [al_ghadir, [1594, 1583, 1610, 1585]],
            seeded_area 14 (hayy @ al_qairawan) ''Al Qairawan''
              [al_qairawan, [1602, 1610, 1585, 1608, 1575, 1606]],
            seeded_area 15 (hayy @ al_rimal) ''Al Rimal''
              [al_rimal, [1585, 1605, 1575, 1604]]]"
  shows "list_all (\<lambda>row. list_all (\<lambda>name.
             cc_is_covered (coverage_check ilike order_by_name_ar COVERED_AREAS name)
               = (1577 \<notin> set (ca_name_ar row))
             \<and> cc_area_id (coverage_check ilike order_by_name_ar COVERED_AREAS name)
               = (if 1577 \<in> set (ca_name_ar row) then None else Some (ca_id row)))
           (ca_name_ar row # ca_aliases_ar row)) xs"
  unfolding xs
  apply (simp only: list.pred_inject seeded_area_def CoveredArea.select_convs
           coverage_check_is_covered coverage_check_area_id seeded_lookups option.map)
  apply (simp add: area_defs)
  done

text \<open>
  C9 (as the code has it): in both lookups coverage depends on the spelling of the
  name. The tool \<open>coverage_check\<close> of the MCP server
  normalizes the name and then asks the table for an exact match on \<open>name_ar\<close>,
  \<open>name_en\<close> or an alias, so it reports an area as covered exactly when the normalized
  name is one of these. On the seeded table each of the three names of a row (with the
  prefix "district", without it, without the definite article) finds that row when the
  name has no teh marbuta, and finds nothing when it has one: \<open>normalize_area_name\<close>
  turns teh marbuta into heh, and the names of the table keep theirs. So the district
  Sahafa is not covered under any of its three names, whatever \<open>ILIKE\<close> and the ordering
  are, while Narjis is covered under all three, with the same answer. The agent's tool
  \<open>check_delivery_district\<close> covers Narjis with and without the prefix, but it does not
  normalize and has no aliases: Narjis written with alef and hamza, with a fatha, or
  without the definite article is found by \<open>coverage_check\<close> and is not covered by
  \<open>check_delivery_district\<close>, which answers the bare name with two suggestions.
\<close>

theorem coverage_lookup_depends_on_spelling:
  fixes ilike :: "pystr \<Rightarrow> pystr \<Rightarrow> bool"
  shows
  "cc_is_covered (coverage_check ilike order_by_name_ar covered_areas name)
     = (find_area_by_name covered_areas (py_strip (normalize_area_name name)) \<noteq> None)
   \<and> list_all (\<lambda>row. list_all (\<lambda>name.
             cc_is_covered (coverage_check ilike order_by_name_ar COVERED_AREAS name)
               = (1577 \<notin> set (ca_name_ar row))
             \<and> cc_area_id (coverage_check ilike order_by_name_ar COVERED_AREAS name)
               = (if 1577 \<in> set (ca_name_ar row) then None else Some (ca_id row)))
           (ca_name_ar row # ca_aliases_ar row)) COVERED_AREAS
   \<and> al_sahafa = [1575, 1604, 1589, 1581, 1575, 1601, 1577]
   \<and> normalize_area_name (hayy @ al_sahafa) = [1575, 1604, 1589, 1581, 1575, 1601, 1607]
   \<and> list_all (\<lambda>name. \<not> cc_is_covered (coverage_check ilike order_by_name_ar COVERED_AREAS name))
        [hayy @ al_sahafa, al_sahafa, [1589, 1581, 1575, 1601, 1577]]
   \<and> list_all (\<lambda>name. coverage_check ilike order_by_name_ar COVERED_AREAS name
          = \<lparr>cc_is_covered = True, cc_area_id = Some 1, cc_area_name_ar = Some (hayy @ al_narjis),
             cc_area_name_en = Some (ascii ''Al Narjis''), cc_city = Some (ascii ''Riyadh''),
             cc_suggestions = None, cc_message_ar = Yes_we_deliver_to (hayy @ al_narjis)\<rparr>)
        [hayy @ al_narjis, al_narjis, [1606, 1585, 1580, 1587]]
   \<and> covered (check_delivery_district (hayy @ al_narjis))
   \<and> covered (check_delivery_district al_narjis)
   \<and> list_all (\<lambda>name. cc_area_id (coverage_check ilike order_by_name_ar COVERED_AREAS name) = Some 1
                   \<and> \<not> covered (check_delivery_district name))
        [[1571, 1604, 1606, 1585, 1580, 1587], [1575, 1604, 1606, 1614, 1585, 1580, 1587],
         [1606, 1585, 1580, 1587]]
   \<and> check_delivery_district [1606, 1585, 1580, 1587]
       = \<lparr>covered = False, cr_delivery_fee = 0, cr_estimated_time = [],
          cr_message_ar = Did_you_mean [1606, 1585, 1580, 1587] [hayy @ al_narjis, al_narjis],
          cr_suggestions = Some [hayy @ al_narjis, al_narjis]\<rparr>"
proof -
  have 1: "cc_is_covered (coverage_check ilike order_by_name_ar covered_areas name)
     = (find_area_by_name covered_areas (py_strip (normalize_area_name name)) \<noteq> None)"
    by (rule coverage_check_is_covered)
  have 2: "list_all (\<lambda>row. list_all (\<lambda>name.
             cc_is_covered (coverage_check ilike order_by_name_ar COVERED_AREAS name)
               = (1577 \<notin> set (ca_name_ar row))
             \<and> cc_area_id (coverage_check ilike order_by_name_ar COVERED_AREAS name)
               = (if 1577 \<in> set (ca_name_ar row) then None else Some (ca_id row)))
           (ca_name_ar row # ca_aliases_ar row)) COVERED_AREAS"
    by (rule seeded_rows[OF COVERED_AREAS_def])
  have 3: "list_all (\<lambda>name. \<not> cc_is_covered (coverage_check ilike order_by_name_ar COVERED_AREAS name))
        [hayy @ al_sahafa, al_sahafa, [1589, 1581, 1575, 1601, 1577]]"
    by (simp only: list.pred_inject coverage_check_is_covered seeded_lookups) simp
  have 4: "list_all (\<lambda>name. coverage_check ilike order_by_name_ar COVERED_AREAS name
          = \<lparr>cc_is_covered = True, cc_area_id = Some 1, cc_area_name_ar = Some (hayy @ al_narjis),
             cc_area_name_en = Some (ascii ''Al Narjis''), cc_city = Some (ascii ''Riyadh''),
             cc_suggestions = None, cc_message_ar = Yes_we_deliver_to (hayy @ al_narjis)\<rparr>)
        [hayy @ al_narjis, al_narjis, [1606, 1585, 1580, 1587]]"
    by (simp add: coverage_check_found[OF seeded_lookups(1)] coverage_check_found[OF seeded_lookups(2)]
          coverage_check_found[OF seeded_lookups(3)] seeded_area_def)
  have 5: "list_all (\<lambda>name. cc_area_id (coverage_check ilike order_by_name_ar COVERED_AREAS name) = Some 1
                   \<and> \<not> covered (check_delivery_district name))
        [[1571, 1604, 1606, 1585, 1580, 1587], [1575, 1604, 1606, 1614, 1585, 1580, 1587],
         [1606, 1585, 1580, 1587]]"
    by (simp add: coverage_check_area_id spelling_variants(1,2) seeded_lookups(3) seeded_area_def
          covered_iff_key variants_not_keys)
  have 6: "check_delivery_district [1606, 1585, 1580, 1587]
       = \<lparr>covered = False, cr_delivery_fee = 0, cr_estimated_time = [],
          cr_message_ar = Did_you_mean [1606, 1585, 1580, 1587] [hayy @ al_narjis, al_narjis],
          cr_suggestions = Some [hayy @ al_narjis, al_narjis]\<rparr>"
    using suggestions_without_article(1) by (simp add: al_narjis_def)
  from 1 2 3 4 5 6 spelling_variants(3,4) district_rows(1,2) show ?thesis by simp
qed

end
